theory Spec2Isabelle
  imports Main
begin

section \<open>Python values\<close>

text \<open>
  The two Lambda functions \<^verbatim>\<open>lambda/get-submission-metadata/lambda_function.py\<close> and
  \<^verbatim>\<open>lambda/intake-handler/lambda_function.py\<close> are embedded as HOL functions.

  A Python \<^verbatim>\<open>bytes\<close> value is a list of 8-bit characters. A Python \<^verbatim>\<open>str\<close> is
  represented by its UTF-8 encoding, again a list of 8-bit characters: \<^verbatim>\<open>s.encode("utf-8")\<close>
  is then the identity, \<^verbatim>\<open>b.decode("utf-8")\<close> succeeds exactly on the well-formed byte
  strings, and every literal of the source is the same ASCII text in the model. Functions
  that look at single code points (white space, the character classes of the regular
  expressions) match the UTF-8 sequence of the code point at the current position.

  A dictionary is an association list, looked up with \<open>map_of\<close>. Of the logger, the calls of \<^verbatim>\<open>logger.exception\<close> are
  recorded in the trace of a handler; the other calls do not influence the control flow and
  are left out.
\<close>

type_synonym bytes = string
type_synonym str = string

datatype jval = JStr str | JInt int | JObj "(str \<times> jval) list"

type_synonym dict = "(str \<times> jval) list"

fun startswith :: "string \<Rightarrow> string \<Rightarrow> bool" where
  "startswith s [] = True"
| "startswith [] (p # ps) = False"
| "startswith (c # cs) (p # ps) = (c = p \<and> startswith cs ps)"

text \<open>
  The code points for which \<^verbatim>\<open>str.isspace\<close> holds (the set used by \<^verbatim>\<open>str.split()\<close>,
  \<^verbatim>\<open>str.strip()\<close> and the class \<^verbatim>\<open>\s\<close> of \<^verbatim>\<open>re\<close> on \<^verbatim>\<open>str\<close> patterns), each as its
  UTF-8 sequence: U+0009..U+000D, U+001C..U+0020, U+0085, U+00A0, U+1680,
  U+2000..U+200A, U+2028, U+2029, U+202F, U+205F, U+3000.
\<close>

definition unicode_spaces :: "string list" where
  "unicode_spaces =
     [[CHR 0x09], [CHR 0x0A], [CHR 0x0B], [CHR 0x0C], [CHR 0x0D],
      [CHR 0x1C], [CHR 0x1D], [CHR 0x1E], [CHR 0x1F], [CHR 0x20],
      [CHR 0xC2, CHR 0x85], [CHR 0xC2, CHR 0xA0],
      [CHR 0xE1, CHR 0x9A, CHR 0x80],
      [CHR 0xE2, CHR 0x80, CHR 0x80], [CHR 0xE2, CHR 0x80, CHR 0x81],
      [CHR 0xE2, CHR 0x80, CHR 0x82], [CHR 0xE2, CHR 0x80, CHR 0x83],
      [CHR 0xE2, CHR 0x80, CHR 0x84], [CHR 0xE2, CHR 0x80, CHR 0x85],
      [CHR 0xE2, CHR 0x80, CHR 0x86], [CHR 0xE2, CHR 0x80, CHR 0x87],
      [CHR 0xE2, CHR 0x80, CHR 0x88], [CHR 0xE2, CHR 0x80, CHR 0x89],
      [CHR 0xE2, CHR 0x80, CHR 0x8A],
      [CHR 0xE2, CHR 0x80, CHR 0xA8], [CHR 0xE2, CHR 0x80, CHR 0xA9],
      [CHR 0xE2, CHR 0x80, CHR 0xAF],
      [CHR 0xE2, CHR 0x81, CHR 0x9F],
      [CHR 0xE3, CHR 0x80, CHR 0x80]]"

text \<open>The white space of \<^verbatim>\<open>bytes.strip()\<close>: space, tab, LF, CR, VT, FF.\<close>

definition ascii_spaces :: "string list" where
  "ascii_spaces = [[CHR 0x20], [CHR 0x09], [CHR 0x0A], [CHR 0x0D], [CHR 0x0B], [CHR 0x0C]]"

text \<open>
  \<open>match_len pats s\<close> is the length of the first pattern of \<open>pats\<close> that \<open>s\<close> starts
  with, and \<open>0\<close> when there is none (no pattern is empty).
\<close>

definition match_len :: "string list \<Rightarrow> string \<Rightarrow> nat" where
  "match_len pats s = (case find (startswith s) pats of None \<Rightarrow> 0 | Some p \<Rightarrow> length p)"

function lstrip_seqs :: "string list \<Rightarrow> string \<Rightarrow> string" where
  "lstrip_seqs pats [] = []"
| "lstrip_seqs pats (c # cs) =
     (if match_len pats (c # cs) = 0 then c # cs
      else lstrip_seqs pats (drop (match_len pats (c # cs)) (c # cs)))"
  by pat_completeness auto
termination
  by (relation "measure (\<lambda>(pats, s). length s)") auto

definition strip_seqs :: "string list \<Rightarrow> string \<Rightarrow> string" where
  "strip_seqs pats s = rev (lstrip_seqs (map rev pats) (rev (lstrip_seqs pats s)))"

definition str_strip :: "str \<Rightarrow> str" where
  "str_strip s = strip_seqs unicode_spaces s"

definition bytes_strip :: "bytes \<Rightarrow> bytes" where
  "bytes_strip s = strip_seqs ascii_spaces s"

text \<open>
  \<^verbatim>\<open>s.split()\<close>: the maximal runs of \<open>s\<close> without white space; \<open>cur\<close> is the run
  read so far.
\<close>

function split_ws :: "str \<Rightarrow> str \<Rightarrow> str list" where
  "split_ws cur [] = (if cur = [] then [] else [cur])"
| "split_ws cur (c # cs) =
     (if match_len unicode_spaces (c # cs) = 0 then split_ws (cur @ [c]) cs
      else (if cur = [] then [] else [cur])
           @ split_ws [] (drop (match_len unicode_spaces (c # cs)) (c # cs)))"
  by pat_completeness auto
termination
  by (relation "measure (\<lambda>(cur, s). length s)") auto

definition str_split :: "str \<Rightarrow> str list" where
  "str_split s = split_ws [] s"

text \<open>\<^verbatim>\<open>s.replace(",", " ")\<close>.\<close>

definition replace_comma :: "str \<Rightarrow> str" where
  "replace_comma s = map (\<lambda>c. if c = CHR '','' then CHR '' '' else c) s"

definition dict_get :: "(str \<times> 'a) list \<Rightarrow> str \<Rightarrow> 'a \<Rightarrow> 'a" where
  "dict_get d k dflt = (case map_of d k of None \<Rightarrow> dflt | Some v \<Rightarrow> v)"

text \<open>
  \<^verbatim>\<open>d[k] = v\<close> on a dictionary kept in insertion order: the value of a key that is present is
  replaced where it stands, a new key is added at the end.
\<close>

fun dict_update :: "'k \<Rightarrow> 'v \<Rightarrow> ('k \<times> 'v) list \<Rightarrow> ('k \<times> 'v) list" where
  "dict_update k v [] = [(k, v)]"
| "dict_update k v (kv # d) = (if fst kv = k then (k, v) # d else kv # dict_update k v d)"

subsection \<open>Searching and splitting\<close>

definition dquote :: char where
  "dquote = CHR 0x22"

definition squote :: char where
  "squote = CHR 0x27"

definition CRLF :: bytes where
  "CRLF = [CHR 0x0D, CHR 0x0A]"

definition LF :: bytes where
  "LF = [CHR 0x0A]"

text \<open>
  \<open>split_once sep s\<close> is \<^verbatim>\<open>s.split(sep, 1)\<close> when \<^verbatim>\<open>sep in s\<close>, the text before and after the
  first occurrence of \<open>sep\<close>, and \<open>None\<close> when \<open>sep\<close> does not occur in \<open>s\<close>.
\<close>

fun split_once :: "string \<Rightarrow> string \<Rightarrow> (string \<times> string) option" where
  "split_once sep [] = (if sep = [] then Some ([], []) else None)"
| "split_once sep (c # cs) =
     (if startswith (c # cs) sep then Some ([], drop (length sep) (c # cs))
      else map_option (\<lambda>(before, after). (c # before, after)) (split_once sep cs))"

definition contains :: "string \<Rightarrow> string \<Rightarrow> bool" where
  "contains s sub = (split_once sub s \<noteq> None)"

definition endswith :: "string \<Rightarrow> string \<Rightarrow> bool" where
  "endswith s suffix = startswith (rev s) (rev suffix)"

text \<open>
  \<^verbatim>\<open>s.split(sep)\<close> for a separator that is not empty: the fields between the occurrences of
  \<open>sep\<close>, found from the left. Python raises \<^verbatim>\<open>ValueError\<close> for an empty separator, which is
  \<open>None\<close> here.
\<close>

function split_sep :: "string \<Rightarrow> string \<Rightarrow> string \<Rightarrow> string list" where
  "split_sep sep cur [] = [cur]"
| "split_sep sep cur (c # cs) =
     (if sep \<noteq> [] \<and> startswith (c # cs) sep then cur # split_sep sep [] (drop (length sep) (c # cs))
      else split_sep sep (cur @ [c]) cs)"
  by pat_completeness auto
termination
  by (relation "measure (\<lambda>(sep, cur, s). length s)") auto

definition bytes_split :: "bytes \<Rightarrow> bytes \<Rightarrow> bytes list option" where
  "bytes_split s sep = (if sep = [] then None else Some (split_sep sep [] s))"

text \<open>\<^verbatim>\<open>s.rfind(ch)\<close>: the index of the last occurrence, \<open>None\<close> for Python's \<open>-1\<close>.\<close>

fun rfind :: "string \<Rightarrow> char \<Rightarrow> nat option" where
  "rfind [] ch = None"
| "rfind (c # cs) ch =
     (case rfind cs ch of
        Some i \<Rightarrow> Some (Suc i)
      | None \<Rightarrow> if c = ch then Some 0 else None)"

text \<open>
  Lower case of the ASCII letters, every other character left as it is: what \<^verbatim>\<open>s.lower()\<close>
  returns for ASCII text.
\<close>

definition ascii_char_lower :: "char \<Rightarrow> char" where
  "ascii_char_lower c =
     (if 65 \<le> (of_char c :: nat) \<and> (of_char c :: nat) \<le> 90 then char_of ((of_char c :: nat) + 32)
      else c)"

definition ascii_lower :: "str \<Rightarrow> str" where
  "ascii_lower s = map ascii_char_lower s"

text \<open>\<^verbatim>\<open>str(n)\<close> for an integer, as the f-strings of the handler print it.\<close>

fun str_of_nat :: "nat \<Rightarrow> str" where
  "str_of_nat n =
     (if n < 10 then [char_of (48 + n)] else str_of_nat (n div 10) @ [char_of (48 + n mod 10)])"

declare str_of_nat.simps [simp del]

definition str_of_int :: "int \<Rightarrow> str" where
  "str_of_int i = (if i < 0 then ''-'' @ str_of_nat (nat (- i)) else str_of_nat (nat i))"

subsection \<open>UTF-8\<close>

text \<open>
  One step of CPython's UTF-8 decoder at the head of a byte string that is not empty:
  whether a well-formed sequence starts there, and the number of bytes of that sequence
  or, for an error, of the bytes the error covers (one byte for an invalid start byte, the
  bytes before the offending one for an invalid continuation byte, the rest of the input
  for an unexpected end). Overlong forms, surrogates and code points above U+10FFFF are
  errors.
\<close>

definition is_continuation :: "char \<Rightarrow> bool" where
  "is_continuation c = (128 \<le> (of_char c :: nat) \<and> (of_char c :: nat) < 192)"

definition utf8_step :: "bytes \<Rightarrow> bool \<times> nat" where
  "utf8_step s =
     (case s of
        [] \<Rightarrow> (True, 0)
      | c # r \<Rightarrow>
          let ch = (of_char c :: nat) in
          if ch < 128 then (True, 1)
          else if ch < 194 then (False, 1)
          else if ch < 224 then
            (case r of
               [] \<Rightarrow> (False, 1)
             | c2 # r2 \<Rightarrow> if is_continuation c2 then (True, 2) else (False, 1))
          else if ch < 240 then
            (case r of
               [] \<Rightarrow> (False, 1)
             | c2 # r2 \<Rightarrow>
                 if \<not> is_continuation c2
                    \<or> (if (of_char c2 :: nat) < 160 then ch = 224 else ch = 237) then (False, 1)
                 else (case r2 of
                         [] \<Rightarrow> (False, 2)
                       | c3 # r3 \<Rightarrow> if is_continuation c3 then (True, 3) else (False, 2)))
          else if ch < 245 then
            (case r of
               [] \<Rightarrow> (False, 1)
             | c2 # r2 \<Rightarrow>
                 if \<not> is_continuation c2
                    \<or> (if (of_char c2 :: nat) < 144 then ch = 240 else ch = 244) then (False, 1)
                 else (case r2 of
                         [] \<Rightarrow> (False, 2)
                       | c3 # r3 \<Rightarrow>
                           if \<not> is_continuation c3 then (False, 2)
                           else (case r3 of
                                   [] \<Rightarrow> (False, 3)
                                 | c4 # r4 \<Rightarrow>
                                     if is_continuation c4 then (True, 4) else (False, 3))))
          else (False, 1))"

text \<open>\<^verbatim>\<open>b.decode("utf-8")\<close>: \<open>None\<close> is \<^verbatim>\<open>UnicodeDecodeError\<close>.\<close>

function utf8_valid :: "bytes \<Rightarrow> bool" where
  "utf8_valid [] = True"
| "utf8_valid (c # cs) =
     (if fst (utf8_step (c # cs)) then utf8_valid (drop (snd (utf8_step (c # cs))) (c # cs))
      else False)"
  by pat_completeness auto
termination
  by (relation "measure length")
     (auto simp: utf8_step_def Let_def split: list.splits if_splits)

definition bytes_decode :: "bytes \<Rightarrow> str option" where
  "bytes_decode b = (if utf8_valid b then Some b else None)"

text \<open>
  \<^verbatim>\<open>b.decode("utf-8", errors="replace")\<close>: every error is replaced by U+FFFD and decoding goes
  on behind the bytes the error covers.
\<close>

definition REPLACEMENT_CHARACTER :: str where
  "REPLACEMENT_CHARACTER = [CHR 0xEF, CHR 0xBF, CHR 0xBD]"

function bytes_decode_replace :: "bytes \<Rightarrow> str" where
  "bytes_decode_replace [] = []"
| "bytes_decode_replace (c # cs) =
     (if fst (utf8_step (c # cs)) then take (snd (utf8_step (c # cs))) (c # cs)
      else REPLACEMENT_CHARACTER)
     @ bytes_decode_replace (drop (snd (utf8_step (c # cs))) (c # cs))"
  by pat_completeness auto
termination
  by (relation "measure length")
     (auto simp: utf8_step_def Let_def split: list.splits if_splits)

section \<open>Requests, responses and the outside world\<close>

text \<open>
  A key of the event whose value the handlers read with \<^verbatim>\<open>.get(key, {})\<close> and then call
  \<^verbatim>\<open>.get\<close> on: the key is missing (the default \<^verbatim>\<open>{}\<close> is taken), or its value is JSON
  \<^verbatim>\<open>null\<close> (Python's \<^verbatim>\<open>None\<close>, on which the next \<^verbatim>\<open>.get\<close> raises \<^verbatim>\<open>AttributeError\<close>), or its
  value is an object. For the other keys of the event a missing key and \<^verbatim>\<open>null\<close> have the
  same effect in both handlers (\<^verbatim>\<open>event.get("pathParameters") or {}\<close>,
  \<^verbatim>\<open>event.get("headers", {}) or {}\<close>, \<^verbatim>\<open>not body_raw\<close>, \<^verbatim>\<open>http_method == "OPTIONS"\<close>), and both
  are \<open>None\<close>. The values inside \<^verbatim>\<open>claims\<close>, \<^verbatim>\<open>identity\<close>, \<^verbatim>\<open>headers\<close> and
  \<^verbatim>\<open>pathParameters\<close> are strings.
\<close>

datatype 'a field = Missing | Null | Object 'a

record authorizer =
  claims :: "(str \<times> str) list field"

record request_context =
  authorizer :: "authorizer field"
  identity :: "(str \<times> str) list field"

record event =
  httpMethod :: "str option"
  headers :: "(str \<times> str) list option"
  body :: "str option"
  isBase64Encoded :: bool
  pathParameters :: "(str \<times> str) list option"
  requestContext :: "request_context field"

record response =
  statusCode :: nat
  response_headers :: "(str \<times> str) list"
  response_body :: dict

text \<open>
  The calls to the services outside the process, and the calls of \<^verbatim>\<open>logger.exception\<close>, in
  the order they are made: the table and key of \<^verbatim>\<open>get_item\<close>; the bucket, key, body, content
  type and metadata of \<^verbatim>\<open>put_object\<close>; the table and item of \<^verbatim>\<open>put_item\<close>; the function name
  and payload of \<^verbatim>\<open>invoke\<close>. Their results
  are parameters of the handlers: a call returns, or raises \<^verbatim>\<open>botocore\<close>'s \<^verbatim>\<open>ClientError\<close>
  (an error response of the service), or raises another exception of the client library
  (a \<^verbatim>\<open>BotoCoreError\<close> such as \<^verbatim>\<open>EndpointConnectionError\<close>, which is not a \<^verbatim>\<open>ClientError\<close>).
\<close>

datatype call =
  GetItem str str
| PutObject str str bytes str "(str \<times> str) list"
| PutItem str dict
| Invoke str dict
| LogException str

datatype py_exception =
  ClientError | BotoCoreError | AttributeError | UnicodeDecodeError | BinasciiError
| ValueError str

datatype 'a outcome = Returns 'a | Raises py_exception

text \<open>
  \<^verbatim>\<open>event.get("requestContext", {}).get("authorizer", {}).get("claims", {})\<close>, which both
  handlers evaluate: \<open>Inl\<close> is the exception of a \<^verbatim>\<open>.get\<close> on \<^verbatim>\<open>None\<close>, \<open>Inr None\<close> is the
  result \<^verbatim>\<open>None\<close> of the last \<^verbatim>\<open>.get\<close>, on which the first \<^verbatim>\<open>claims.get\<close> of the handler raises.
\<close>

definition event_claims :: "event \<Rightarrow> py_exception + (str \<times> str) list option" where
  "event_claims ev =
     (case requestContext ev of
        Missing \<Rightarrow> Inr (Some [])
      | Null \<Rightarrow> Inl AttributeError
      | Object rc \<Rightarrow>
          (case authorizer rc of
             Missing \<Rightarrow> Inr (Some [])
           | Null \<Rightarrow> Inl AttributeError
           | Object a \<Rightarrow>
               (case claims a of
                  Missing \<Rightarrow> Inr (Some [])
                | Null \<Rightarrow> Inr None
                | Object cl \<Rightarrow> Inr (Some cl))))"

text \<open>What both functions take from their environment.\<close>

record aws_env =
  SUBMISSIONS_TABLE :: str
  AUDIT_FUNCTION_NAME :: str
  invoke :: "dict \<Rightarrow> unit outcome"

section \<open>The metadata reader (get-submission-metadata)\<close>

record reader_env = aws_env +
  get_item :: "str \<Rightarrow> dict option outcome"

definition READER_CORS_HEADERS :: "(str \<times> str) list" where
  "READER_CORS_HEADERS =
     [(''Access-Control-Allow-Origin'', ''*''),
      (''Access-Control-Allow-Headers'', ''Content-Type,Authorization''),
      (''Access-Control-Allow-Methods'', ''GET,OPTIONS''),
      (''Content-Type'', ''application/json'')]"

definition INTERNAL_FIELDS :: "str list" where
  "INTERNAL_FIELDS = [''_version'', ''_ttl'', ''_internal_flags'']"

text \<open>
  \<^verbatim>\<open>_build_response\<close>; the body is kept as the dictionary that \<^verbatim>\<open>json.dumps\<close> serialises.
\<close>

definition reader_build_response :: "nat \<Rightarrow> dict \<Rightarrow> response" where
  "reader_build_response status_code b =
     \<lparr>statusCode = status_code, response_headers = READER_CORS_HEADERS, response_body = b\<rparr>"

record user_info =
  sub :: str
  email :: str
  groups :: str

text \<open>\<^verbatim>\<open>_extract_user_info\<close>; \<open>Inl\<close> is the exception it raises.\<close>

definition extract_user_info :: "event \<Rightarrow> py_exception + user_info" where
  "extract_user_info ev =
     (case event_claims ev of
        Inl e \<Rightarrow> Inl e
      | Inr None \<Rightarrow> Inl AttributeError
      | Inr (Some cl) \<Rightarrow>
          Inr \<lparr>sub = dict_get cl ''sub'' [],
               email = dict_get cl ''email'' [],
               groups = dict_get cl ''cognito:groups'' []\<rparr>)"

definition user_in_group :: "user_info \<Rightarrow> str \<Rightarrow> bool" where
  "user_in_group ui group_name =
     (if groups ui = [] then False
      else group_name \<in> set (map str_strip (str_split (replace_comma (groups ui)))))"

text \<open>
  \<^verbatim>\<open>_invoke_audit_logger\<close>: only \<^verbatim>\<open>ClientError\<close> is caught; any other exception leaves the
  function.
\<close>

definition invoke_audit_logger ::
  "reader_env \<Rightarrow> str \<Rightarrow> str \<Rightarrow> str \<Rightarrow> str \<Rightarrow> str \<Rightarrow> dict \<Rightarrow> py_exception option \<times> call list" where
  "invoke_audit_logger env event_type user_id submission_id ip_address user_agent action_metadata =
     (let payload =
            [(''event_type'', JStr event_type),
             (''user_id'', JStr user_id),
             (''submission_id'', JStr submission_id),
             (''ip_address'', JStr ip_address),
             (''user_agent'', JStr user_agent),
             (''action_metadata'', JObj action_metadata)]
      in case invoke env payload of
           Returns u \<Rightarrow> (None, [Invoke (AUDIT_FUNCTION_NAME env) payload])
         | Raises ClientError \<Rightarrow>
             (None, [Invoke (AUDIT_FUNCTION_NAME env) payload,
                     LogException ''Failed to invoke audit logger''])
         | Raises e \<Rightarrow> (Some e, [Invoke (AUDIT_FUNCTION_NAME env) payload]))"

text \<open>
  The first lines of step 5, \<^verbatim>\<open>event.get("requestContext", {}).get("identity", {})\<close>: \<open>Inl\<close>
  is the exception of the \<^verbatim>\<open>.get\<close> on \<^verbatim>\<open>None\<close>, \<open>Inr None\<close> the result \<^verbatim>\<open>None\<close>, on which
  \<^verbatim>\<open>identity.get\<close> raises.
\<close>

definition event_identity :: "event \<Rightarrow> py_exception + (str \<times> str) list option" where
  "event_identity ev =
     (case requestContext ev of
        Missing \<Rightarrow> Inr (Some [])
      | Null \<Rightarrow> Inl AttributeError
      | Object rc \<Rightarrow>
          (case identity rc of
             Missing \<Rightarrow> Inr (Some [])
           | Null \<Rightarrow> Inr None
           | Object i \<Rightarrow> Inr (Some i)))"

text \<open>Steps 5 and 6 of the handler: the audit event, then the sanitised record.\<close>

definition reader_audit_and_return ::
  "reader_env \<Rightarrow> event \<Rightarrow> str \<Rightarrow> user_info \<Rightarrow> dict \<Rightarrow> (py_exception + response) \<times> call list" where
  "reader_audit_and_return env ev submission_id ui item =
     (case event_identity ev of
        Inl e \<Rightarrow> (Inl e, [])
      | Inr None \<Rightarrow> (Inl AttributeError, [])
      | Inr (Some ident) \<Rightarrow>
          (let ip_address = dict_get ident ''sourceIp'' ''unknown'';
               user_agent = dict_get ident ''userAgent'' ''unknown'';
               audit = invoke_audit_logger env ''ACCESS'' (sub ui) submission_id ip_address user_agent
                         [(''email'', JStr (email ui)), (''action'', JStr ''get_metadata'')];
               sanitised_item = filter (\<lambda>(k, v). k \<notin> set INTERNAL_FIELDS) item
           in (case fst audit of
                 Some e \<Rightarrow> Inl e
               | None \<Rightarrow> Inr (reader_build_response 200 sanitised_item),
               snd audit)))"

definition reader_forbidden :: response where
  "reader_forbidden =
     reader_build_response 403 [(''error'', JStr ''You are not authorised to access this submission'')]"

definition reader_authorise ::
  "reader_env \<Rightarrow> event \<Rightarrow> str \<Rightarrow> user_info \<Rightarrow> dict \<Rightarrow> (py_exception + response) \<times> call list" where
  "reader_authorise env ev submission_id ui item =
     (let is_faculty = user_in_group ui ''Faculty'';
          is_admin = user_in_group ui ''Admin'';
          is_student = user_in_group ui ''Students''
      in if is_faculty \<or> is_admin then reader_audit_and_return env ev submission_id ui item
         else if is_student then
           (if map_of item ''student_id'' \<noteq> Some (JStr (sub ui)) then (Inr reader_forbidden, [])
            else reader_audit_and_return env ev submission_id ui item)
         else (Inr reader_forbidden, []))"

text \<open>Step 3 of the handler, the lookup, followed by the authorisation of step 4.\<close>

definition reader_lookup ::
  "reader_env \<Rightarrow> event \<Rightarrow> str \<Rightarrow> user_info \<Rightarrow> (py_exception + response) \<times> call list" where
  "reader_lookup env ev submission_id ui =
     (let lookup = GetItem (SUBMISSIONS_TABLE env) submission_id in
      (case get_item env submission_id of
         Raises ClientError \<Rightarrow>
           (Inr (reader_build_response 500 [(''error'', JStr ''Internal server error'')]),
            [lookup, LogException (''DynamoDB error while fetching submission '' @ submission_id)])
       | Raises e \<Rightarrow> (Inl e, [lookup])
       | Returns None \<Rightarrow>
           (Inr (reader_build_response 404 [(''error'', JStr ''Submission not found'')]), [lookup])
       | Returns (Some item) \<Rightarrow>
           (if item = [] then
              (Inr (reader_build_response 404 [(''error'', JStr ''Submission not found'')]), [lookup])
            else (fst (reader_authorise env ev submission_id ui item),
                  lookup # snd (reader_authorise env ev submission_id ui item)))))"

definition reader_lambda_handler ::
  "reader_env \<Rightarrow> event \<Rightarrow> (py_exception + response) \<times> call list" where
  "reader_lambda_handler env ev =
     (let path_params = (case pathParameters ev of None \<Rightarrow> [] | Some p \<Rightarrow> p);
          submission_id = dict_get path_params ''id'' []
      in if submission_id = [] then
           (Inr (reader_build_response 400 [(''error'', JStr ''Missing submission id in request path'')]), [])
         else
           (case extract_user_info ev of
              Inl e \<Rightarrow> (Inl e, [])
            | Inr ui \<Rightarrow>
                if sub ui = [] then
                  (Inr (reader_build_response 403
                          [(''error'', JStr ''Unable to determine caller identity'')]), [])
                else reader_lookup env ev submission_id ui))"

subsection \<open>The access rule in the words of the specification\<close>

text \<open>
  Section 4.5 of the specification, for comparison with the handler: the raw groups claim
  is split at every comma and at every white-space code point, each field is trimmed, and
  the decision is taken on the resulting set of memberships.
\<close>

definition group_separators :: "string list" where
  "group_separators = [CHR '',''] # unicode_spaces"

function split_seps :: "string list \<Rightarrow> str \<Rightarrow> str \<Rightarrow> str list" where
  "split_seps seps cur [] = [cur]"
| "split_seps seps cur (c # cs) =
     (if match_len seps (c # cs) = 0 then split_seps seps (cur @ [c]) cs
      else cur # split_seps seps [] (drop (match_len seps (c # cs)) (c # cs)))"
  by pat_completeness auto
termination
  by (relation "measure (\<lambda>(seps, cur, s). length s)") auto

definition spec_group_memberships :: "str \<Rightarrow> str set" where
  "spec_group_memberships raw = set (map str_strip (split_seps group_separators [] raw))"

datatype decision = Allow | Deny

definition spec_access_decision :: "str set \<Rightarrow> str \<Rightarrow> jval option \<Rightarrow> decision" where
  "spec_access_decision memberships subject_id owner =
     (if ''Faculty'' \<in> memberships \<or> ''Admin'' \<in> memberships then Allow
      else if ''Students'' \<in> memberships \<and> owner = Some (JStr subject_id) then Allow
      else Deny)"

subsection \<open>A stored record and requests for it\<close>

definition example_record :: dict where
  "example_record =
     [(''submission_id'', JStr ''sub-1''), (''student_id'', JStr ''student-1''),
      (''file_name'', JStr ''homework.pdf''), (''file_size'', JInt 40), (''_ttl'', JInt 0)]"

definition example_reader_env :: "dict option outcome \<Rightarrow> unit outcome \<Rightarrow> reader_env" where
  "example_reader_env stored audit =
     \<lparr>SUBMISSIONS_TABLE = ''submissions'', AUDIT_FUNCTION_NAME = ''audit-logger'',
      invoke = (\<lambda>p. audit),
      get_item = (\<lambda>k. if k = ''sub-1'' then stored else Returns None)\<rparr>"

definition example_read_event :: "(str \<times> str) list \<Rightarrow> event" where
  "example_read_event cl =
     \<lparr>httpMethod = Some ''GET'', headers = None, body = None, isBase64Encoded = False,
      pathParameters = Some [(''id'', ''sub-1'')],
      requestContext = Object \<lparr>authorizer = Object \<lparr>claims = Object cl\<rparr>, identity = Missing\<rparr>\<rparr>"

section \<open>The intake handler (intake-handler)\<close>

text \<open>
  The outcomes of the calls (\<^verbatim>\<open>put_object\<close> by key and body, \<^verbatim>\<open>put_item\<close> by item, \<^verbatim>\<open>invoke\<close> by
  payload), the library functions \<^verbatim>\<open>base64.b64decode\<close> (\<open>None\<close> when it raises),
  \<^verbatim>\<open>hashlib.sha256\<close> and \<^verbatim>\<open>str.lower\<close> (the lower case of the Unicode tables), and the
  values of \<^verbatim>\<open>uuid.uuid4()\<close> and of the clock are parameters.
\<close>

record intake_env = aws_env +
  RAW_BUCKET :: str
  MAX_FILE_SIZE :: int
  put_object :: "str \<Rightarrow> bytes \<Rightarrow> unit outcome"
  put_item :: "dict \<Rightarrow> unit outcome"
  b64decode :: "str \<Rightarrow> bytes option"
  sha256 :: "bytes \<Rightarrow> str"
  str_lower :: "str \<Rightarrow> str"
  uuid4 :: str
  utcnow_isoformat :: str

definition ALLOWED_EXTENSIONS :: "str list" where
  "ALLOWED_EXTENSIONS =
     [''.pdf'', ''.docx'', ''.txt'', ''.py'', ''.java'', ''.cpp'',
      ''.c'', ''.js'', ''.html'', ''.css'', ''.ipynb'', ''.tex'']"

text \<open>\<^verbatim>\<open>str(sorted(ALLOWED_EXTENSIONS))\<close>, as the error message prints it.\<close>

definition sorted_ALLOWED_EXTENSIONS :: str where
  "sorted_ALLOWED_EXTENSIONS =
     ''['' @ [squote] @ ''.c'' @ [squote] @ '', '' @ [squote] @ ''.cpp'' @ [squote] @ '', ''
     @ [squote] @ ''.css'' @ [squote] @ '', '' @ [squote] @ ''.docx'' @ [squote] @ '', ''
     @ [squote] @ ''.html'' @ [squote] @ '', '' @ [squote] @ ''.ipynb'' @ [squote] @ '', ''
     @ [squote] @ ''.java'' @ [squote] @ '', '' @ [squote] @ ''.js'' @ [squote] @ '', ''
     @ [squote] @ ''.pdf'' @ [squote] @ '', '' @ [squote] @ ''.py'' @ [squote] @ '', ''
     @ [squote] @ ''.tex'' @ [squote] @ '', '' @ [squote] @ ''.txt'' @ [squote] @ '']''"

definition INTAKE_CORS_HEADERS :: "(str \<times> str) list" where
  "INTAKE_CORS_HEADERS =
     [(''Content-Type'', ''application/json''),
      (''Access-Control-Allow-Origin'', ''*''),
      (''Access-Control-Allow-Headers'', ''Content-Type,Authorization''),
      (''Access-Control-Allow-Methods'', ''POST,OPTIONS'')]"

definition intake_build_response :: "nat \<Rightarrow> dict \<Rightarrow> response" where
  "intake_build_response status_code b =
     \<lparr>statusCode = status_code, response_headers = INTAKE_CORS_HEADERS, response_body = b\<rparr>"

subsection \<open>The multipart decoder\<close>

record part =
  part_value :: bytes
  part_filename :: "str option"

text \<open>
  \<^verbatim>\<open>re.search(r"boundary=([^\s;]+)", content_type)\<close>: the group of the leftmost match. At a
  position the match exists exactly when \<^verbatim>\<open>boundary=\<close> is followed by at least one code point
  that is neither white space nor \<open>;\<close>, and the group is the longest run of such code points.
\<close>

fun take_token :: "str \<Rightarrow> str" where
  "take_token [] = []"
| "take_token (c # cs) =
     (if c = CHR '';'' \<or> match_len unicode_spaces (c # cs) \<noteq> 0 then []
      else c # take_token cs)"

fun search_boundary :: "str \<Rightarrow> str option" where
  "search_boundary [] = None"
| "search_boundary (c # cs) =
     (if startswith (c # cs) ''boundary='' \<and> take_token (drop 9 (c # cs)) \<noteq> []
      then Some (take_token (drop 9 (c # cs)))
      else search_boundary cs)"

text \<open>
  \<^verbatim>\<open>re.search(r'name="([^"]+)"', text)\<close> and \<^verbatim>\<open>re.search(r'filename="([^"]*)"', text)\<close>: \<open>key\<close> is
  the text up to and with the opening quote. At a position the match exists exactly when
  \<open>key\<close> is followed by a run without quotes (not empty for \<open>+\<close>) and a closing quote.
\<close>

fun search_quoted :: "str \<Rightarrow> bool \<Rightarrow> str \<Rightarrow> str option" where
  "search_quoted key nonempty [] = None"
| "search_quoted key nonempty (c # cs) =
     (if startswith (c # cs) key
         \<and> (if nonempty then takeWhile (\<lambda>x. x \<noteq> dquote) (drop (length key) (c # cs)) \<noteq> [] else True)
         \<and> dropWhile (\<lambda>x. x \<noteq> dquote) (drop (length key) (c # cs)) \<noteq> []
      then Some (takeWhile (\<lambda>x. x \<noteq> dquote) (drop (length key) (c # cs)))
      else search_quoted key nonempty cs)"

definition search_name :: "str \<Rightarrow> str option" where
  "search_name header_text = search_quoted (''name='' @ [dquote]) True header_text"

definition search_filename :: "str \<Rightarrow> str option" where
  "search_filename header_text = search_quoted (''filename='' @ [dquote]) False header_text"

text \<open>
  The header block and the content block of a segment, split at the first blank line (CRLF
  CRLF, else LF LF); \<open>None\<close> when the segment has no blank line.
\<close>

definition split_headers :: "bytes \<Rightarrow> (bytes \<times> bytes) option" where
  "split_headers p =
     (if contains p (CRLF @ CRLF) then split_once (CRLF @ CRLF) p
      else if contains p (LF @ LF) then split_once (LF @ LF) p
      else None)"

text \<open>
  The body of the loop over the segments: \<open>None\<close> where the source says \<^verbatim>\<open>continue\<close>,
  otherwise the field name and the part stored under it.
\<close>

definition parse_part :: "bytes \<Rightarrow> (str \<times> part) option" where
  "parse_part p =
     (if p = [] \<or> bytes_strip p \<in> set [[], ''--'', ''--'' @ CRLF] then None
      else
        (case split_headers p of
           None \<Rightarrow> None
         | Some (raw_headers, raw_body) \<Rightarrow>
             (case search_name (bytes_decode_replace raw_headers) of
                None \<Rightarrow> None
              | Some field_name \<Rightarrow>
                  Some (field_name,
                        \<lparr>part_value = (if endswith raw_body CRLF
                                        then take (length raw_body - 2) raw_body else raw_body),
                         part_filename = search_filename (bytes_decode_replace raw_headers)\<rparr>))))"

definition parse_parts :: "bytes list \<Rightarrow> (str \<times> part) list" where
  "parse_parts ps =
     foldl (\<lambda>parsed p. case parse_part p of None \<Rightarrow> parsed | Some (n, v) \<Rightarrow> dict_update n v parsed)
       [] ps"

text \<open>\<^verbatim>\<open>_parse_multipart\<close>; \<open>Inl\<close> is the exception it raises.\<close>

definition parse_multipart :: "str \<Rightarrow> bytes \<Rightarrow> py_exception + (str \<times> part) list" where
  "parse_multipart content_type body_bytes =
     (case search_boundary content_type of
        None \<Rightarrow> Inl (ValueError ''Missing boundary in Content-Type header'')
      | Some g \<Rightarrow>
          (let boundary = strip_seqs [[squote]] (strip_seqs [[dquote]] g);
               delimiter = ''--'' @ boundary
           in case bytes_split body_bytes delimiter of
                None \<Rightarrow> Inl (ValueError ''empty separator'')
              | Some ps \<Rightarrow> Inr (parse_parts ps)))"

definition get_extension :: "intake_env \<Rightarrow> str \<Rightarrow> str" where
  "get_extension env filename =
     (case rfind filename CHR ''.'' of
        None \<Rightarrow> []
      | Some idx \<Rightarrow> str_lower env (drop idx filename))"

subsection \<open>The handler\<close>

text \<open>
  Inside the \<^verbatim>\<open>try\<close> block a section of the handler returns a response, raises, or goes on
  to the next section with the values it has computed.
\<close>

datatype 'a stage = Reject response | Raise py_exception | Continue 'a

record submission =
  file_content :: bytes
  original_filename :: str
  student_id :: str
  course_id :: str
  section_id :: str
  extension :: str
  file_size :: nat

text \<open>Sections 2 and 3: the body and the multipart parts.\<close>

definition intake_decode :: "intake_env \<Rightarrow> event \<Rightarrow> (str \<times> part) list stage" where
  "intake_decode env ev =
     (let body_raw = (case body ev of None \<Rightarrow> [] | Some b \<Rightarrow> b);
          hs = (case headers ev of None \<Rightarrow> [] | Some h \<Rightarrow> h);
          content_type = (if dict_get hs ''Content-Type'' [] \<noteq> [] then dict_get hs ''Content-Type'' []
                          else dict_get hs ''content-type'' [])
      in if body_raw = [] then
           Reject (intake_build_response 400 [(''error'', JStr ''Empty request body'')])
         else
           (case (if isBase64Encoded ev then b64decode env body_raw else Some body_raw) of
              None \<Rightarrow> Raise BinasciiError
            | Some body_bytes \<Rightarrow>
                if \<not> contains content_type ''multipart/form-data'' then
                  Reject (intake_build_response 400
                            [(''error'', JStr ''Content-Type must be multipart/form-data'')])
                else
                  (case parse_multipart content_type body_bytes of
                     Inl (ValueError msg) \<Rightarrow>
                       Reject (intake_build_response 400
                                 [(''error'', JStr (''Malformed multipart body: '' @ msg))])
                   | Inl e \<Rightarrow> Raise e
                   | Inr parts \<Rightarrow> Continue parts)))"

text \<open>Sections 4, 5 and 6: the required fields, the extension and the size.\<close>

definition intake_validate :: "intake_env \<Rightarrow> (str \<times> part) list \<Rightarrow> submission stage" where
  "intake_validate env parts =
     (case map_of parts ''file'' of
        None \<Rightarrow> Reject (intake_build_response 400 [(''error'', JStr ''Missing required field: file'')])
      | Some file_part \<Rightarrow>
     (case part_filename file_part of
        None \<Rightarrow> Reject (intake_build_response 400 [(''error'', JStr ''Missing required field: file'')])
      | Some filename \<Rightarrow>
     (case find (\<lambda>field. map_of parts field = None) [''student_id'', ''course_id'', ''section_id''] of
        Some field \<Rightarrow>
          Reject (intake_build_response 400 [(''error'', JStr (''Missing required field: '' @ field))])
      | None \<Rightarrow>
     (case (map_of parts ''student_id'', map_of parts ''course_id'', map_of parts ''section_id'') of
        (Some student_part, Some course_part, Some section_part) \<Rightarrow>
          (case bytes_decode (part_value student_part) of
             None \<Rightarrow> Raise UnicodeDecodeError
           | Some student_text \<Rightarrow>
          (case bytes_decode (part_value course_part) of
             None \<Rightarrow> Raise UnicodeDecodeError
           | Some course_text \<Rightarrow>
          (case bytes_decode (part_value section_part) of
             None \<Rightarrow> Raise UnicodeDecodeError
           | Some section_text \<Rightarrow>
               if str_strip student_text = [] \<or> str_strip course_text = []
                  \<or> str_strip section_text = [] then
                 Reject (intake_build_response 400
                   [(''error'', JStr ''student_id, course_id, and section_id must not be empty'')])
               else if get_extension env filename \<notin> set ALLOWED_EXTENSIONS then
                 Reject (intake_build_response 400
                   [(''error'', JStr (''Invalid file type '' @ [squote] @ get_extension env filename
                       @ [squote] @ ''. Allowed: '' @ sorted_ALLOWED_EXTENSIONS))])
               else if int (length (part_value file_part)) > MAX_FILE_SIZE env then
                 Reject (intake_build_response 413
                   [(''error'', JStr (''File too large ('' @ str_of_nat (length (part_value file_part))
                       @ '' bytes). Maximum allowed: '' @ str_of_int (MAX_FILE_SIZE env)
                       @ '' bytes''))])
               else
                 Continue \<lparr>file_content = part_value file_part,
                           original_filename = filename,
                           student_id = str_strip student_text,
                           course_id = str_strip course_text,
                           section_id = str_strip section_text,
                           extension = get_extension env filename,
                           file_size = length (part_value file_part)\<rparr>)))
      | _ \<Rightarrow> Raise (ValueError ''unreachable'')))))"

text \<open>Sections 7 to 11: the identifiers, the two writes, the audit event and the response.\<close>

definition intake_store :: "intake_env \<Rightarrow> str \<Rightarrow> str \<Rightarrow> submission \<Rightarrow> response \<times> call list" where
  "intake_store env user_id user_email v =
     (let submission_id = uuid4 env;
          sha256_hash = sha256 env (file_content v);
          upload_timestamp = utcnow_isoformat env;
          s3_key = ''submissions/'' @ student_id v @ ''/'' @ submission_id @ ''/'' @ original_filename v;
          upload = PutObject (RAW_BUCKET env) s3_key (file_content v) ''application/octet-stream''
                     [(''submission_id'', submission_id), (''student_id'', student_id v),
                      (''sha256'', sha256_hash)];
          item = [(''submission_id'', JStr submission_id),
                  (''student_id'', JStr (student_id v)),
                  (''course_id'', JStr (course_id v)),
                  (''section_id'', JStr (section_id v)),
                  (''file_path'', JStr (''s3://'' @ RAW_BUCKET env @ ''/'' @ s3_key)),
                  (''file_name'', JStr (original_filename v)),
                  (''file_size'', JInt (int (file_size v))),
                  (''file_type'', JStr (extension v)),
                  (''sha256_hash'', JStr sha256_hash),
                  (''upload_timestamp'', JStr upload_timestamp),
                  (''status'', JStr ''uploaded''),
                  (''user_id'', JStr user_id),
                  (''email'', JStr user_email)];
          audit_payload = [(''event_type'', JStr ''UPLOAD''),
                           (''submission_id'', JStr submission_id),
                           (''student_id'', JStr (student_id v)),
                           (''course_id'', JStr (course_id v)),
                           (''section_id'', JStr (section_id v)),
                           (''file_name'', JStr (original_filename v)),
                           (''file_size'', JInt (int (file_size v))),
                           (''sha256_hash'', JStr sha256_hash),
                           (''upload_timestamp'', JStr upload_timestamp),
                           (''user_id'', JStr user_id),
                           (''email'', JStr user_email)];
          success = intake_build_response 200
                      [(''message'', JStr ''File uploaded successfully''),
                       (''submission_id'', JStr submission_id),
                       (''file_name'', JStr (original_filename v)),
                       (''file_size'', JInt (int (file_size v))),
                       (''sha256_hash'', JStr sha256_hash),
                       (''upload_timestamp'', JStr upload_timestamp),
                       (''status'', JStr ''uploaded'')]
      in case put_object env s3_key (file_content v) of
           Raises e \<Rightarrow>
             (intake_build_response 500 [(''error'', JStr ''Failed to upload file to storage'')],
              [upload, LogException ''S3 upload failed''])
         | Returns u \<Rightarrow>
             (case put_item env item of
                Raises e \<Rightarrow>
                  (intake_build_response 500 [(''error'', JStr ''Failed to record submission metadata'')],
                   [upload, PutItem (SUBMISSIONS_TABLE env) item, LogException ''DynamoDB write failed''])
              | Returns u \<Rightarrow>
                  (success,
                   [upload, PutItem (SUBMISSIONS_TABLE env) item]
                   @ (if AUDIT_FUNCTION_NAME env = [] then []
                      else (case invoke env audit_payload of
                              Returns u \<Rightarrow> [Invoke (AUDIT_FUNCTION_NAME env) audit_payload]
                            | Raises e \<Rightarrow>
                                [Invoke (AUDIT_FUNCTION_NAME env) audit_payload,
                                 LogException ''Failed to invoke audit-logger''])))))"

definition intake_unhandled :: "response \<times> call list" where
  "intake_unhandled =
     (intake_build_response 500 [(''error'', JStr ''Internal server error'')],
      [LogException ''Unhandled exception in intake-handler''])"

text \<open>
  \<^verbatim>\<open>lambda_handler\<close>: the preflight answer, then the \<^verbatim>\<open>try\<close> block, whose first section
  reads the claims. Every exception raised inside the block ends in \<open>intake_unhandled\<close>.
\<close>

definition intake_lambda_handler :: "intake_env \<Rightarrow> event \<Rightarrow> response \<times> call list" where
  "intake_lambda_handler env ev =
     (let http_method = (case httpMethod ev of None \<Rightarrow> [] | Some m \<Rightarrow> m)
      in if http_method = ''OPTIONS'' then (intake_build_response 200 [(''message'', JStr ''OK'')], [])
         else
           (case event_claims ev of
              Inl e \<Rightarrow> intake_unhandled
            | Inr None \<Rightarrow> intake_unhandled
            | Inr (Some cl) \<Rightarrow>
                (case intake_decode env ev of
                   Reject r \<Rightarrow> (r, [])
                 | Raise e \<Rightarrow> intake_unhandled
                 | Continue parts \<Rightarrow>
                     (case intake_validate env parts of
                        Reject r \<Rightarrow> (r, [])
                      | Raise e \<Rightarrow> intake_unhandled
                      | Continue v \<Rightarrow>
                          intake_store env (dict_get cl ''sub'' ''anonymous'')
                            (dict_get cl ''email'' ''unknown'') v))))"

subsection \<open>The validator in the words of the specification\<close>

text \<open>
  Section 4.2 of the specification, for comparison with sections 4 to 6 of the handler: the
  five checks in their order, the first failing check giving the rejection. The extension
  is the text from the last \<open>.\<close> of the file name on, in lower case (by the function \<open>lower\<close>),
  and empty when the name has no \<open>.\<close>; the text of an identifier is its part, decoded as UTF-8 and trimmed.
\<close>

datatype rejection =
  MissingFile
| MissingField str
| EmptyIdentifier
| DisallowedExtension str
| FileTooLarge nat int

definition required_fields :: "str list" where
  "required_fields = [''student_id'', ''course_id'', ''section_id'']"

definition spec_filename :: "(str \<times> part) list \<Rightarrow> str option" where
  "spec_filename parts = (case map_of parts ''file'' of None \<Rightarrow> None | Some p \<Rightarrow> part_filename p)"

definition spec_file_size :: "(str \<times> part) list \<Rightarrow> nat" where
  "spec_file_size parts = (case map_of parts ''file'' of None \<Rightarrow> 0 | Some p \<Rightarrow> length (part_value p))"

definition spec_identifier :: "(str \<times> part) list \<Rightarrow> str \<Rightarrow> str option" where
  "spec_identifier parts field =
     (case map_of parts field of
        None \<Rightarrow> None
      | Some p \<Rightarrow> map_option str_strip (bytes_decode (part_value p)))"

definition spec_extension :: "(str \<Rightarrow> str) \<Rightarrow> str \<Rightarrow> str" where
  "spec_extension lower filename =
     (if CHR ''.'' \<in> set filename
      then lower (CHR ''.'' # rev (takeWhile (\<lambda>c. c \<noteq> CHR ''.'') (rev filename)))
      else [])"

definition spec_validate ::
  "(str \<Rightarrow> str) \<Rightarrow> str list \<Rightarrow> int \<Rightarrow> (str \<times> part) list \<Rightarrow> rejection option" where
  "spec_validate lower allowed_extensions max_size_bytes parts =
     (case spec_filename parts of
        None \<Rightarrow> Some MissingFile
      | Some filename \<Rightarrow>
          (case find (\<lambda>field. map_of parts field = None) required_fields of
             Some field \<Rightarrow> Some (MissingField field)
           | None \<Rightarrow>
               if list_ex (\<lambda>field. spec_identifier parts field = Some []) required_fields
               then Some EmptyIdentifier
               else if spec_extension lower filename \<notin> set allowed_extensions
               then Some (DisallowedExtension (spec_extension lower filename))
               else if int (spec_file_size parts) > max_size_bytes
               then Some (FileTooLarge (spec_file_size parts) max_size_bytes)
               else None))"

text \<open>
  The identifiers of a request are text when every identifier part that is present decodes
  as UTF-8.
\<close>

definition identifiers_decode :: "(str \<times> part) list \<Rightarrow> bool" where
  "identifiers_decode parts =
     list_all (\<lambda>field. case map_of parts field of
                          None \<Rightarrow> True
                        | Some p \<Rightarrow> bytes_decode (part_value p) \<noteq> None) required_fields"

text \<open>The response by which the handler reports a rejection.\<close>

fun rejection_response :: "rejection \<Rightarrow> response" where
  "rejection_response MissingFile =
     intake_build_response 400 [(''error'', JStr ''Missing required field: file'')]"
| "rejection_response (MissingField field) =
     intake_build_response 400 [(''error'', JStr (''Missing required field: '' @ field))]"
| "rejection_response EmptyIdentifier =
     intake_build_response 400
       [(''error'', JStr ''student_id, course_id, and section_id must not be empty'')]"
| "rejection_response (DisallowedExtension ext) =
     intake_build_response 400
       [(''error'', JStr (''Invalid file type '' @ [squote] @ ext @ [squote] @ ''. Allowed: ''
           @ sorted_ALLOWED_EXTENSIONS))]"
| "rejection_response (FileTooLarge n limit) =
     intake_build_response 413
       [(''error'', JStr (''File too large ('' @ str_of_nat n @ '' bytes). Maximum allowed: ''
           @ str_of_int limit @ '' bytes''))]"

text \<open>The calls that write to the blob store and to the metadata store.\<close>

fun is_put_object :: "call \<Rightarrow> bool" where
  "is_put_object (PutObject bucket k b content_type metadata) = True"
| "is_put_object c = False"

fun is_put_item :: "call \<Rightarrow> bool" where
  "is_put_item (PutItem table item) = True"
| "is_put_item c = False"


subsection \<open>Upload requests\<close>

text \<open>
  The requests of the handler's unit tests: a multipart body with the boundary
  \<^verbatim>\<open>----TestBoundary1234\<close>, not base64-encoded, from the caller \<^verbatim>\<open>user-123\<close>.
\<close>

definition example_boundary :: str where
  "example_boundary = ''----TestBoundary1234''"

definition example_field :: "str \<Rightarrow> bytes \<Rightarrow> bytes" where
  "example_field name v =
     ''--'' @ example_boundary @ CRLF
     @ ''Content-Disposition: form-data; name='' @ [dquote] @ name @ [dquote] @ CRLF
     @ CRLF @ v @ CRLF"

definition example_file :: "str \<Rightarrow> bytes \<Rightarrow> bytes" where
  "example_file name content =
     ''--'' @ example_boundary @ CRLF
     @ ''Content-Disposition: form-data; name='' @ [dquote] @ ''file'' @ [dquote]
     @ ''; filename='' @ [dquote] @ name @ [dquote] @ CRLF
     @ ''Content-Type: application/octet-stream'' @ CRLF
     @ CRLF @ content @ CRLF"

definition example_closing :: bytes where
  "example_closing = ''--'' @ example_boundary @ ''--'' @ CRLF"

definition example_upload_event :: "bytes \<Rightarrow> event" where
  "example_upload_event b =
     \<lparr>httpMethod = Some ''POST'',
      headers = Some [(''Content-Type'', ''multipart/form-data; boundary='' @ example_boundary)],
      body = Some b, isBase64Encoded = False, pathParameters = None,
      requestContext = Object \<lparr>authorizer = Object \<lparr>claims = Object [(''sub'', ''user-123''),
                                 (''email'', ''student@university.edu'')]\<rparr>,
                             identity = Missing\<rparr>\<rparr>"

definition example_intake_env ::
  "int \<Rightarrow> unit outcome \<Rightarrow> unit outcome \<Rightarrow> unit outcome \<Rightarrow> intake_env" where
  "example_intake_env limit blob_store metadata_store audit =
     \<lparr>SUBMISSIONS_TABLE = ''test-submissions'', AUDIT_FUNCTION_NAME = ''test-audit-logger'',
      invoke = (\<lambda>p. audit),
      RAW_BUCKET = ''test-raw-bucket'', MAX_FILE_SIZE = limit,
      put_object = (\<lambda>k b. blob_store), put_item = (\<lambda>i. metadata_store),
      b64decode = (\<lambda>s. None), sha256 = (\<lambda>b. ''digest''), str_lower = ascii_lower,
      uuid4 = ''uuid-1'', utcnow_isoformat = ''2025-01-01T00:00:00+00:00''\<rparr>"

text \<open>
  Bodies that are not text reach the handler base64-encoded. The three bodies below are
  the base64 text of: the three identifier parts with the \<^verbatim>\<open>student_id\<close> byte \<^verbatim>\<open>0xFF\<close> and no
  file part; the same with the file \<^verbatim>\<open>a.pdf\<close> in front; the file \<^verbatim>\<open>a.pdf\<close> and the identifier
  parts with the \<^verbatim>\<open>course_id\<close> bytes \<^verbatim>\<open>0xC3 0x28\<close>. The example decoder knows these three texts.
\<close>

definition example_b64_no_file :: str where
  "example_b64_no_file =
     ''LS0tLS0tVGVzdEJvdW5kYXJ5MTIzNA0KQ29udGVudC1EaXNwb3NpdGlvbjogZm9ybS1kYXRhOyBuYW1lPSJzdHVk''
     @ ''ZW50X2lkIg0KDQr/DQotLS0tLS1UZXN0Qm91bmRhcnkxMjM0DQpDb250ZW50LURpc3Bvc2l0aW9uOiBmb3JtLWRh''
     @ ''dGE7IG5hbWU9ImNvdXJzZV9pZCINCg0KQ1MxMDENCi0tLS0tLVRlc3RCb3VuZGFyeTEyMzQNCkNvbnRlbnQtRGlz''
     @ ''cG9zaXRpb246IGZvcm0tZGF0YTsgbmFtZT0ic2VjdGlvbl9pZCINCg0KQQ0KLS0tLS0tVGVzdEJvdW5kYXJ5MTIz''
     @ ''NC0tDQo=''"

definition example_b64_bad_student :: str where
  "example_b64_bad_student =
     ''LS0tLS0tVGVzdEJvdW5kYXJ5MTIzNA0KQ29udGVudC1EaXNwb3NpdGlvbjogZm9ybS1kYXRhOyBuYW1lPSJmaWxl''
     @ ''IjsgZmlsZW5hbWU9ImEucGRmIg0KQ29udGVudC1UeXBlOiBhcHBsaWNhdGlvbi9vY3RldC1zdHJlYW0NCg0KYWJj''
     @ ''DQotLS0tLS1UZXN0Qm91bmRhcnkxMjM0DQpDb250ZW50LURpc3Bvc2l0aW9uOiBmb3JtLWRhdGE7IG5hbWU9InN0''
     @ ''dWRlbnRfaWQiDQoNCv8NCi0tLS0tLVRlc3RCb3VuZGFyeTEyMzQNCkNvbnRlbnQtRGlzcG9zaXRpb246IGZvcm0t''
     @ ''ZGF0YTsgbmFtZT0iY291cnNlX2lkIg0KDQpDUzEwMQ0KLS0tLS0tVGVzdEJvdW5kYXJ5MTIzNA0KQ29udGVudC1E''
     @ ''aXNwb3NpdGlvbjogZm9ybS1kYXRhOyBuYW1lPSJzZWN0aW9uX2lkIg0KDQpBDQotLS0tLS1UZXN0Qm91bmRhcnkx''
     @ ''MjM0LS0NCg==''"

definition example_b64_bad_course :: str where
  "example_b64_bad_course =
     ''LS0tLS0tVGVzdEJvdW5kYXJ5MTIzNA0KQ29udGVudC1EaXNwb3NpdGlvbjogZm9ybS1kYXRhOyBuYW1lPSJmaWxl''
     @ ''IjsgZmlsZW5hbWU9ImEucGRmIg0KQ29udGVudC1UeXBlOiBhcHBsaWNhdGlvbi9vY3RldC1zdHJlYW0NCg0KYWJj''
     @ ''DQotLS0tLS1UZXN0Qm91bmRhcnkxMjM0DQpDb250ZW50LURpc3Bvc2l0aW9uOiBmb3JtLWRhdGE7IG5hbWU9InN0''
     @ ''dWRlbnRfaWQiDQoNCnMxDQotLS0tLS1UZXN0Qm91bmRhcnkxMjM0DQpDb250ZW50LURpc3Bvc2l0aW9uOiBmb3Jt''
     @ ''LWRhdGE7IG5hbWU9ImNvdXJzZV9pZCINCg0KwygNCi0tLS0tLVRlc3RCb3VuZGFyeTEyMzQNCkNvbnRlbnQtRGlz''
     @ ''cG9zaXRpb246IGZvcm0tZGF0YTsgbmFtZT0ic2VjdGlvbl9pZCINCg0KQQ0KLS0tLS0tVGVzdEJvdW5kYXJ5MTIz''
     @ ''NC0tDQo=''"

definition example_b64decode :: "str \<Rightarrow> bytes option" where
  "example_b64decode =
     map_of
       [(example_b64_no_file,
         example_field ''student_id'' [CHR 0xFF] @ example_field ''course_id'' ''CS101''
         @ example_field ''section_id'' ''A'' @ example_closing),
        (example_b64_bad_student,
         example_file ''a.pdf'' ''abc'' @ example_field ''student_id'' [CHR 0xFF]
         @ example_field ''course_id'' ''CS101'' @ example_field ''section_id'' ''A''
         @ example_closing),
        (example_b64_bad_course,
         example_file ''a.pdf'' ''abc'' @ example_field ''student_id'' ''s1''
         @ example_field ''course_id'' [CHR 0xC3, CHR 0x28] @ example_field ''section_id'' ''A''
         @ example_closing)]"

definition example_b64_event :: "str \<Rightarrow> event" where
  "example_b64_event b = (example_upload_event b)\<lparr>isBase64Encoded := True\<rparr>"

definition example_b64_env :: intake_env where
  "example_b64_env =
     (example_intake_env 100 (Returns ()) (Returns ()) (Returns ()))\<lparr>b64decode := example_b64decode\<rparr>"

text \<open>Decoded parts: a file part, a text part, and the parts of an upload.\<close>

definition example_file_part :: "str \<Rightarrow> bytes \<Rightarrow> part" where
  "example_file_part name content = \<lparr>part_value = content, part_filename = Some name\<rparr>"

definition example_text_part :: "bytes \<Rightarrow> part" where
  "example_text_part v = \<lparr>part_value = v, part_filename = None\<rparr>"

definition example_parts :: "str \<Rightarrow> bytes \<Rightarrow> bytes \<Rightarrow> (str \<times> part) list" where
  "example_parts name content student =
     [(''file'', example_file_part name content),
      (''student_id'', example_text_part student),
      (''course_id'', example_text_part ''CS101''),
      (''section_id'', example_text_part ''A'')]"

section \<open>Properties of the metadata reader\<close>

subsection \<open>Group membership: the code against the specification\<close>

lemma startswith_map_other:
  assumes fixd: "\<And>c. c \<in> set w \<Longrightarrow> f c = c"
    and inj: "\<And>d c. c \<in> set w \<Longrightarrow> f d = c \<Longrightarrow> d = c"
  shows "startswith (map f s) w = startswith s w"
  using assms
proof (induction s w rule: startswith.induct)
  case (1 s)
  show ?case by simp
next
  case (2 p ps)
  show ?case by simp
next
  case (3 c cs p ps)
  have hd: "(f c = p) = (c = p)"
  proof
    assume "f c = p"
    then show "c = p" using "3.prems"(2)[of p c] by simp
  next
    assume "c = p"
    then show "f c = p" using "3.prems"(1)[of p] by simp
  qed
  have tl: "startswith (map f cs) ps = startswith cs ps"
  proof (rule "3.IH")
    fix c assume "c \<in> set ps"
    then show "f c = c" using "3.prems"(1)[of c] by simp
  next
    fix d c assume "c \<in> set ps" "f d = c"
    then show "d = c" using "3.prems"(2)[of c d] by simp
  qed
  show ?case by (simp only: list.map startswith.simps hd tl)
qed

lemma unicode_spaces_cases:
  "\<forall>w \<in> set unicode_spaces. w = [CHR '' ''] \<or> (CHR '' '' \<notin> set w \<and> CHR '','' \<notin> set w)"
  by (simp add: unicode_spaces_def)

lemma startswith_replace_comma:
  assumes "w \<in> set unicode_spaces" "\<not> startswith s [CHR '','']"
  shows "startswith (replace_comma s) w = startswith s w"
proof (cases "w = [CHR '' '']")
  case True
  with assms(2) show ?thesis by (cases s) (simp_all add: replace_comma_def)
next
  case False
  with unicode_spaces_cases assms(1)
  have nw: "CHR '' '' \<notin> set w" "CHR '','' \<notin> set w" by blast+
  show ?thesis unfolding replace_comma_def
  proof (rule startswith_map_other)
    fix c assume "c \<in> set w"
    with nw show "(if c = CHR '','' then CHR '' '' else c) = c" by auto
  next
    fix d c assume "c \<in> set w" "(if d = CHR '','' then CHR '' '' else d) = c"
    with nw show "d = c" by (cases "d = CHR '',''") auto
  qed
qed

lemma find_cong_set: "(\<And>x. x \<in> set xs \<Longrightarrow> P x = Q x) \<Longrightarrow> find P xs = find Q xs"
  by (induction xs) simp_all

lemma match_len_comma:
  "match_len unicode_spaces (CHR '' '' # cs) = 1" "match_len group_separators (CHR '','' # cs) = 1"
  by (simp_all add: match_len_def group_separators_def unicode_spaces_def)

lemma match_len_replace_comma:
  "match_len unicode_spaces (replace_comma s) = match_len group_separators s"
proof (cases "startswith s [CHR '','']")
  case True
  then obtain cs where s: "s = CHR '','' # cs" by (cases s) simp_all
  have "replace_comma s = CHR '' '' # replace_comma cs" by (simp add: s replace_comma_def)
  then show ?thesis by (simp only: s match_len_comma)
next
  case False
  have "find (startswith (replace_comma s)) unicode_spaces = find (startswith s) unicode_spaces"
    by (rule find_cong_set) (simp add: startswith_replace_comma False)
  with False show ?thesis
    by (simp add: match_len_def group_separators_def)
qed

lemma split_ws_replace_comma:
  "split_ws cur (replace_comma s) = filter (\<lambda>t. t \<noteq> []) (split_seps group_separators cur s)"
proof (induction group_separators cur s rule: split_seps.induct)
  case (1 cur)
  show ?case by (simp add: replace_comma_def)
next
  case (2 cur c cs)
  let ?n = "match_len group_separators (c # cs)"
  define c' where "c' = (if c = CHR '','' then CHR '' '' else c)"
  have rc: "replace_comma (c # cs) = c' # replace_comma cs"
    by (simp add: replace_comma_def c'_def)
  have m: "match_len unicode_spaces (c' # replace_comma cs) = ?n"
    using match_len_replace_comma[of "c # cs"] by (simp only: rc)
  show ?case
  proof (cases "?n = 0")
    case True
    have "c \<noteq> CHR '',''"
    proof
      assume "c = CHR '',''"
      then have "?n = 1" by (simp only: match_len_comma)
      with True show False by simp
    qed
    then have c': "c' = c" by (simp add: c'_def)
    have "split_ws cur (replace_comma (c # cs)) = split_ws (cur @ [c]) (replace_comma cs)"
      using m True by (simp add: rc c')
    also have "\<dots> = filter (\<lambda>t. t \<noteq> []) (split_seps group_separators (cur @ [c]) cs)"
      using True by (rule 2(1))
    also have "\<dots> = filter (\<lambda>t. t \<noteq> []) (split_seps group_separators cur (c # cs))"
      using True by simp
    finally show ?thesis .
  next
    case False
    have "drop ?n (replace_comma (c # cs)) = replace_comma (drop ?n (c # cs))"
      unfolding replace_comma_def by (rule drop_map)
    then have d: "drop ?n (c' # replace_comma cs) = replace_comma (drop ?n (c # cs))"
      by (simp only: rc)
    have "split_ws cur (c' # replace_comma cs) =
            (if cur = [] then [] else [cur]) @ split_ws [] (drop ?n (c' # replace_comma cs))"
      using False by (simp only: split_ws.simps(2) m if_False)
    then have "split_ws cur (replace_comma (c # cs)) =
            (if cur = [] then [] else [cur]) @ split_ws [] (replace_comma (drop ?n (c # cs)))"
      by (simp only: rc d)
    also have "split_ws [] (replace_comma (drop ?n (c # cs))) =
            filter (\<lambda>t. t \<noteq> []) (split_seps group_separators [] (drop ?n (c # cs)))"
      using False by (rule 2(2))
    also have "(if cur = [] then [] else [cur]) @ filter (\<lambda>t. t \<noteq> []) (split_seps group_separators [] (drop ?n (c # cs)))
          = filter (\<lambda>t. t \<noteq> []) (cur # split_seps group_separators [] (drop ?n (c # cs)))"
      by simp
    also have "cur # split_seps group_separators [] (drop ?n (c # cs)) = split_seps group_separators cur (c # cs)"
      using False by (simp only: split_seps.simps(2) if_False)
    finally show ?thesis .
  qed
qed

lemma str_strip_Nil: "str_strip [] = []"
  by (simp add: str_strip_def strip_seqs_def)

lemma user_in_group_spec:
  assumes "g \<noteq> []"
  shows "user_in_group ui g = (g \<in> spec_group_memberships (groups ui))"
proof (cases "groups ui = []")
  case True
  with assms show ?thesis
    by (simp add: user_in_group_def spec_group_memberships_def str_strip_Nil)
next
  case False
  let ?fs = "split_seps group_separators [] (groups ui)"
  have "user_in_group ui g = (g \<in> str_strip ` set (filter (\<lambda>t. t \<noteq> []) ?fs))"
    using False by (simp add: user_in_group_def str_split_def split_ws_replace_comma)
  also have "\<dots> = (g \<in> str_strip ` set ?fs)"
  proof
    assume "g \<in> str_strip ` set (filter (\<lambda>t. t \<noteq> []) ?fs)"
    then show "g \<in> str_strip ` set ?fs" by auto
  next
    assume "g \<in> str_strip ` set ?fs"
    then obtain t where t: "t \<in> set ?fs" "g = str_strip t" by auto
    with assms have "t \<noteq> []" using str_strip_Nil by auto
    with t show "g \<in> str_strip ` set (filter (\<lambda>t. t \<noteq> []) ?fs)" by auto
  qed
  finally show ?thesis by (simp add: spec_group_memberships_def)
qed

lemma reader_audit_and_return_not_forbidden:
  "fst (reader_audit_and_return env ev sid ui item) \<noteq> Inr reader_forbidden"
  by (simp add: reader_audit_and_return_def reader_forbidden_def reader_build_response_def
      Let_def split: option.splits sum.splits)

text \<open>
  Claim C1. For a request with a submission id, an identified caller and a stored record,
  the reader decides as the specification says: a member of \<^verbatim>\<open>Faculty\<close> or \<^verbatim>\<open>Admin\<close> is
  allowed whoever owns the record; otherwise a member of \<^verbatim>\<open>Students\<close> is allowed exactly
  when the record's \<^verbatim>\<open>student_id\<close> is the caller's subject id; otherwise the answer is the
  403 response. Memberships are the fields of the raw claim split at commas and white
  space and trimmed. An allowed request goes on to the audit event and the record, which
  is never the 403 response.
\<close>

theorem reader_access_decision:
  assumes "dict_get (case pathParameters ev of None \<Rightarrow> [] | Some p \<Rightarrow> p) ''id'' [] = sid"
    and "sid \<noteq> []"
    and "extract_user_info ev = Inr ui"
    and "sub ui \<noteq> []"
    and "get_item env sid = Returns (Some item)"
    and "item \<noteq> []"
  shows "fst (reader_lambda_handler env ev) =
           (case spec_access_decision (spec_group_memberships (groups ui)) (sub ui)
                   (map_of item ''student_id'') of
              Allow \<Rightarrow> fst (reader_audit_and_return env ev sid ui item)
            | Deny \<Rightarrow> Inr reader_forbidden)
         \<and> statusCode reader_forbidden = 403
         \<and> fst (reader_audit_and_return env ev sid ui item) \<noteq> Inr reader_forbidden"
proof -
  have g: "user_in_group ui ''Faculty'' = (''Faculty'' \<in> spec_group_memberships (groups ui))"
    "user_in_group ui ''Admin'' = (''Admin'' \<in> spec_group_memberships (groups ui))"
    "user_in_group ui ''Students'' = (''Students'' \<in> spec_group_memberships (groups ui))"
    by (simp_all add: user_in_group_spec)
  have "fst (reader_lambda_handler env ev) = fst (reader_authorise env ev sid ui item)"
    using assms by (simp add: reader_lambda_handler_def reader_lookup_def Let_def)
  also have "\<dots> = (case spec_access_decision (spec_group_memberships (groups ui)) (sub ui)
                   (map_of item ''student_id'') of
              Allow \<Rightarrow> fst (reader_audit_and_return env ev sid ui item)
            | Deny \<Rightarrow> Inr reader_forbidden)"
    by (simp add: reader_authorise_def spec_access_decision_def g Let_def)
  finally show ?thesis
    using reader_audit_and_return_not_forbidden
    by (simp add: reader_forbidden_def reader_build_response_def)
qed

theorem reader_access_decision_witness:
  "fst (reader_lambda_handler (example_reader_env (Returns (Some example_record)) (Returns ()))
          (example_read_event [(''sub'', ''student-1''), (''cognito:groups'', ''Faculty,Students'')])) =
     (case spec_access_decision (spec_group_memberships ''Faculty,Students'') ''student-1''
             (map_of example_record ''student_id'') of
        Allow \<Rightarrow>
          fst (reader_audit_and_return (example_reader_env (Returns (Some example_record)) (Returns ()))
                 (example_read_event [(''sub'', ''student-1''), (''cognito:groups'', ''Faculty,Students'')])
                 ''sub-1'' \<lparr>sub = ''student-1'', email = [], groups = ''Faculty,Students''\<rparr> example_record)
      | Deny \<Rightarrow> Inr reader_forbidden)
   \<and> statusCode reader_forbidden = 403
   \<and> fst (reader_audit_and_return (example_reader_env (Returns (Some example_record)) (Returns ()))
                 (example_read_event [(''sub'', ''student-1''), (''cognito:groups'', ''Faculty,Students'')])
                 ''sub-1'' \<lparr>sub = ''student-1'', email = [], groups = ''Faculty,Students''\<rparr> example_record)
         \<noteq> Inr reader_forbidden"
proof -
  let ?ev = "example_read_event [(''sub'', ''student-1''), (''cognito:groups'', ''Faculty,Students'')]"
  let ?env = "example_reader_env (Returns (Some example_record)) (Returns ())"
  let ?ui = "\<lparr>sub = ''student-1'', email = [], groups = ''Faculty,Students''\<rparr>"
  have h1: "dict_get (case pathParameters ?ev of None \<Rightarrow> [] | Some p \<Rightarrow> p) ''id'' [] = ''sub-1''"
    by (simp add: example_read_event_def dict_get_def)
  have h2: "''sub-1'' \<noteq> []" by simp
  have h3: "extract_user_info ?ev = Inr ?ui"
    by (simp add: example_read_event_def extract_user_info_def event_claims_def dict_get_def)
  have h4: "sub ?ui \<noteq> []" by simp
  have h5: "get_item ?env ''sub-1'' = Returns (Some example_record)"
    by (simp add: example_reader_env_def)
  have h6: "example_record \<noteq> []" by (simp add: example_record_def)
  from reader_access_decision[OF h1 h2 h3 h4 h5 h6] show ?thesis by simp
qed

subsection \<open>Not found and forbidden\<close>

text \<open>
  Claim C6 says that a caller cannot tell a missing record from a denied one. The handler
  answers the two cases differently: 404 for a missing record, 403 for a denied one.
\<close>

theorem reader_not_found_forbidden_counterexample:
  "fst (reader_lambda_handler (example_reader_env (Returns None) (Returns ()))
          (example_read_event [(''sub'', ''student-2''), (''cognito:groups'', ''Students'')])) =
     Inr (reader_build_response 404 [(''error'', JStr ''Submission not found'')])
   \<and> fst (reader_lambda_handler (example_reader_env (Returns (Some example_record)) (Returns ()))
          (example_read_event [(''sub'', ''student-2''), (''cognito:groups'', ''Students'')])) =
     Inr (reader_build_response 403 [(''error'', JStr ''You are not authorised to access this submission'')])
   \<and> fst (reader_lambda_handler (example_reader_env (Returns None) (Returns ()))
          (example_read_event [(''sub'', ''student-2''), (''cognito:groups'', ''Students'')])) \<noteq>
       fst (reader_lambda_handler (example_reader_env (Returns (Some example_record)) (Returns ()))
          (example_read_event [(''sub'', ''student-2''), (''cognito:groups'', ''Students'')]))"
  by code_simp

text \<open>
  Claim C6, amended. For an identified caller, a missing record is answered by the fixed 404
  response and a denied request by the fixed 403 response, whatever the record holds and
  whatever the reason of the denial; only the lookup has been made. The two responses
  differ, so the caller can tell the two cases apart.
\<close>

theorem reader_not_found_and_forbidden:
  assumes "dict_get (case pathParameters ev of None \<Rightarrow> [] | Some p \<Rightarrow> p) ''id'' [] = sid"
    and "sid \<noteq> []"
    and "extract_user_info ev = Inr ui"
    and "sub ui \<noteq> []"
  shows "(get_item env sid = Returns None \<longrightarrow>
            reader_lambda_handler env ev =
              (Inr (reader_build_response 404 [(''error'', JStr ''Submission not found'')]),
               [GetItem (SUBMISSIONS_TABLE env) sid]))
       \<and> (\<forall>item. get_item env sid = Returns (Some item) \<and> item \<noteq> [] \<and>
              spec_access_decision (spec_group_memberships (groups ui)) (sub ui)
                (map_of item ''student_id'') = Deny \<longrightarrow>
            reader_lambda_handler env ev =
              (Inr (reader_build_response 403
                      [(''error'', JStr ''You are not authorised to access this submission'')]),
               [GetItem (SUBMISSIONS_TABLE env) sid]))
       \<and> reader_build_response 404 [(''error'', JStr ''Submission not found'')] \<noteq>
           reader_build_response 403 [(''error'', JStr ''You are not authorised to access this submission'')]"
proof -
  have g: "user_in_group ui ''Faculty'' = (''Faculty'' \<in> spec_group_memberships (groups ui))"
    "user_in_group ui ''Admin'' = (''Admin'' \<in> spec_group_memberships (groups ui))"
    "user_in_group ui ''Students'' = (''Students'' \<in> spec_group_memberships (groups ui))"
    by (simp_all add: user_in_group_spec)
  have a: "get_item env sid = Returns None \<Longrightarrow>
            reader_lambda_handler env ev =
              (Inr (reader_build_response 404 [(''error'', JStr ''Submission not found'')]),
               [GetItem (SUBMISSIONS_TABLE env) sid])"
    using assms by (simp add: reader_lambda_handler_def reader_lookup_def Let_def)
  have b: "reader_lambda_handler env ev =
              (Inr (reader_build_response 403
                      [(''error'', JStr ''You are not authorised to access this submission'')]),
               [GetItem (SUBMISSIONS_TABLE env) sid])"
    if "get_item env sid = Returns (Some item)" "item \<noteq> []"
      "spec_access_decision (spec_group_memberships (groups ui)) (sub ui)
                (map_of item ''student_id'') = Deny" for item
  proof -
    have "reader_authorise env ev sid ui item = (Inr reader_forbidden, [])"
      using that(3) by (auto simp: reader_authorise_def spec_access_decision_def g Let_def split: if_splits)
    then show ?thesis
      using assms that(1,2)
      by (simp add: reader_lambda_handler_def reader_lookup_def reader_forbidden_def Let_def)
  qed
  have c: "reader_build_response 404 [(''error'', JStr ''Submission not found'')] \<noteq>
           reader_build_response 403 [(''error'', JStr ''You are not authorised to access this submission'')]"
    by (simp add: reader_build_response_def)
  from a b c show ?thesis by blast
qed

theorem reader_not_found_and_forbidden_witness:
  "reader_lambda_handler (example_reader_env (Returns (Some example_record)) (Returns ()))
     (example_read_event [(''sub'', ''student-2''), (''cognito:groups'', ''Students'')]) =
     (Inr (reader_build_response 403
             [(''error'', JStr ''You are not authorised to access this submission'')]),
      [GetItem ''submissions'' ''sub-1''])
   \<and> reader_lambda_handler (example_reader_env (Returns None) (Returns ()))
     (example_read_event [(''sub'', ''student-2''), (''cognito:groups'', ''Students'')]) =
     (Inr (reader_build_response 404 [(''error'', JStr ''Submission not found'')]),
      [GetItem ''submissions'' ''sub-1''])"
proof -
  let ?ev = "example_read_event [(''sub'', ''student-2''), (''cognito:groups'', ''Students'')]"
  let ?ui = "\<lparr>sub = ''student-2'', email = [], groups = ''Students''\<rparr>"
  have h1: "dict_get (case pathParameters ?ev of None \<Rightarrow> [] | Some p \<Rightarrow> p) ''id'' [] = ''sub-1''"
    by (simp add: example_read_event_def dict_get_def)
  have h2: "''sub-1'' \<noteq> []" by simp
  have h3: "extract_user_info ?ev = Inr ?ui"
    by (simp add: example_read_event_def extract_user_info_def event_claims_def dict_get_def)
  have h4: "sub ?ui \<noteq> []" by simp
  have d: "spec_access_decision (spec_group_memberships (groups ?ui)) (sub ?ui)
             (map_of example_record ''student_id'') = Deny"
    by code_simp
  have e: "example_record \<noteq> []" by (simp add: example_record_def)
  note t1 = reader_not_found_and_forbidden[OF h1 h2 h3 h4,
      of "example_reader_env (Returns (Some example_record)) (Returns ())"]
  note t2 = reader_not_found_and_forbidden[OF h1 h2 h3 h4,
      of "example_reader_env (Returns None) (Returns ())"]
  from t1 d e have "reader_lambda_handler (example_reader_env (Returns (Some example_record)) (Returns ())) ?ev =
     (Inr (reader_build_response 403
             [(''error'', JStr ''You are not authorised to access this submission'')]),
      [GetItem ''submissions'' ''sub-1''])"
    by (simp add: example_reader_env_def)
  moreover from t2 have "reader_lambda_handler (example_reader_env (Returns None) (Returns ())) ?ev =
     (Inr (reader_build_response 404 [(''error'', JStr ''Submission not found'')]),
      [GetItem ''submissions'' ''sub-1''])"
    by (simp add: example_reader_env_def)
  ultimately show ?thesis by simp
qed

subsection \<open>Identity before lookup\<close>

text \<open>
  Claim C7 says that every request whose claims lack a subject id is answered by the 403
  response of the unidentified caller. The handler checks the submission id of the path
  first: a request that lacks both is answered by the 400 response.
\<close>

theorem reader_identity_counterexample:
  "extract_user_info
     ((example_read_event [(''email'', ''nobody@example.org'')])\<lparr>pathParameters := None\<rparr>) =
     Inr \<lparr>sub = [], email = ''nobody@example.org'', groups = []\<rparr>
   \<and> reader_lambda_handler (example_reader_env (Returns (Some example_record)) (Returns ()))
     ((example_read_event [(''email'', ''nobody@example.org'')])\<lparr>pathParameters := None\<rparr>) =
     (Inr (reader_build_response 400 [(''error'', JStr ''Missing submission id in request path'')]), [])
   \<and> statusCode (reader_build_response 400
                     [(''error'', JStr ''Missing submission id in request path'')]) \<noteq> 403"
  by code_simp

text \<open>
  Claim C7, amended. For a request whose claims can be read and carry no subject id: when
  the path carries a submission id the answer is the 403 response of the unidentified
  caller, and when it carries none the answer is the 400 response of the missing id; in
  both cases no call is made. A lookup in the metadata store is made only for a request
  whose claims carry a subject id: the identity check precedes the lookup.
\<close>

theorem reader_identity_before_lookup:
  "(\<forall>ui. extract_user_info ev = Inr ui \<and> sub ui = []
          \<and> dict_get (case pathParameters ev of None \<Rightarrow> [] | Some p \<Rightarrow> p) ''id'' [] \<noteq> [] \<longrightarrow>
       reader_lambda_handler env ev =
         (Inr (reader_build_response 403
                 [(''error'', JStr ''Unable to determine caller identity'')]), []))
   \<and> (\<forall>ui. extract_user_info ev = Inr ui \<and> sub ui = []
          \<and> dict_get (case pathParameters ev of None \<Rightarrow> [] | Some p \<Rightarrow> p) ''id'' [] = [] \<longrightarrow>
       reader_lambda_handler env ev =
         (Inr (reader_build_response 400
                 [(''error'', JStr ''Missing submission id in request path'')]), []))
   \<and> (\<forall>table k. GetItem table k \<in> set (snd (reader_lambda_handler env ev)) \<longrightarrow>
         (\<exists>ui. extract_user_info ev = Inr ui \<and> sub ui \<noteq> []))"
proof -
  have a: "reader_lambda_handler env ev =
         (Inr (reader_build_response 403
                 [(''error'', JStr ''Unable to determine caller identity'')]), [])"
    if "extract_user_info ev = Inr ui" "sub ui = []"
      "dict_get (case pathParameters ev of None \<Rightarrow> [] | Some p \<Rightarrow> p) ''id'' [] \<noteq> []" for ui
    using that by (simp add: reader_lambda_handler_def Let_def)
  have b: "reader_lambda_handler env ev =
         (Inr (reader_build_response 400
                 [(''error'', JStr ''Missing submission id in request path'')]), [])"
    if "dict_get (case pathParameters ev of None \<Rightarrow> [] | Some p \<Rightarrow> p) ''id'' [] = []"
    using that by (simp add: reader_lambda_handler_def Let_def)
  have c: "\<exists>ui. extract_user_info ev = Inr ui \<and> sub ui \<noteq> []"
    if "GetItem table k \<in> set (snd (reader_lambda_handler env ev))" for table k
  proof (cases "extract_user_info ev")
    case (Inl e)
    with that show ?thesis
      by (simp add: reader_lambda_handler_def Let_def split: if_splits)
  next
    case (Inr ui)
    with that show ?thesis
      by (cases "sub ui = []") (simp_all add: reader_lambda_handler_def Let_def split: if_splits)
  qed
  from a b c show ?thesis by blast
qed

theorem reader_identity_before_lookup_witness:
  "reader_lambda_handler (example_reader_env (Returns (Some example_record)) (Returns ()))
     (example_read_event [(''email'', ''nobody@example.org''), (''cognito:groups'', ''Admin'')]) =
   (Inr (reader_build_response 403 [(''error'', JStr ''Unable to determine caller identity'')]), [])"
proof -
  let ?ev = "example_read_event [(''email'', ''nobody@example.org''), (''cognito:groups'', ''Admin'')]"
  let ?ui = "\<lparr>sub = [], email = ''nobody@example.org'', groups = ''Admin''\<rparr>"
  have h: "extract_user_info ?ev = Inr ?ui"
    by (simp add: example_read_event_def extract_user_info_def event_claims_def dict_get_def)
  have p: "dict_get (case pathParameters ?ev of None \<Rightarrow> [] | Some p \<Rightarrow> p) ''id'' [] \<noteq> []"
    by (simp add: example_read_event_def dict_get_def)
  from reader_identity_before_lookup[of ?ev
      "example_reader_env (Returns (Some example_record)) (Returns ())"] h p
  show ?thesis by simp
qed

subsection \<open>Failure of the audit notification\<close>

text \<open>
  Claim C5, for the metadata reader. \<^verbatim>\<open>_invoke_audit_logger\<close> catches \<^verbatim>\<open>ClientError\<close> only. When
  the call of the audit function fails with another exception of the client library, the
  exception leaves the handler, which has no handler of its own for it: the caller gets no
  200 response, although the record was found and access was granted.
\<close>

theorem reader_audit_failure_propagates:
  "fst (reader_lambda_handler (example_reader_env (Returns (Some example_record)) (Raises BotoCoreError))
          (example_read_event [(''sub'', ''prof-1''), (''cognito:groups'', ''Faculty'')])) =
     Inl BotoCoreError
   \<and> fst (reader_lambda_handler (example_reader_env (Returns (Some example_record)) (Raises ClientError))
          (example_read_event [(''sub'', ''prof-1''), (''cognito:groups'', ''Faculty'')])) =
     Inr (reader_build_response 200
            [(''submission_id'', JStr ''sub-1''), (''student_id'', JStr ''student-1''),
             (''file_name'', JStr ''homework.pdf''), (''file_size'', JInt 40)])
   \<and> fst (reader_lambda_handler (example_reader_env (Returns (Some example_record)) (Returns ()))
          (example_read_event [(''sub'', ''prof-1''), (''cognito:groups'', ''Faculty'')])) =
     Inr (reader_build_response 200
            [(''submission_id'', JStr ''sub-1''), (''student_id'', JStr ''student-1''),
             (''file_name'', JStr ''homework.pdf''), (''file_size'', JInt 40)])"
  by code_simp

section \<open>The submission validator\<close>

subsection \<open>The extension of a file name\<close>

lemma rfind_None_iff: "rfind s ch = None \<longleftrightarrow> ch \<notin> set s"
  by (induction s) (auto split: option.splits)

lemma rfind_Some_drop:
  "rfind s ch = Some i \<Longrightarrow> drop i s = ch # rev (takeWhile (\<lambda>c. c \<noteq> ch) (rev s))"
proof (induction s arbitrary: i)
  case Nil
  then show ?case by simp
next
  case (Cons c cs)
  show ?case
  proof (cases "rfind cs ch")
    case None
    with Cons.prems have c: "c = ch" and i: "i = 0"
      by (auto split: if_splits)
    from None have "ch \<notin> set cs" by (simp add: rfind_None_iff)
    then have "takeWhile (\<lambda>c. c \<noteq> ch) (rev cs @ [c]) = rev cs @ takeWhile (\<lambda>c. c \<noteq> ch) [c]"
      by (intro takeWhile_append2) auto
    then show ?thesis using c i by simp
  next
    case (Some j)
    with Cons.prems have i: "i = Suc j" by simp
    from Some have "ch \<in> set cs" using rfind_None_iff[of cs ch] by auto
    then have "takeWhile (\<lambda>c. c \<noteq> ch) (rev cs @ [c]) = takeWhile (\<lambda>c. c \<noteq> ch) (rev cs)"
      by (intro takeWhile_append1[of ch]) auto
    then show ?thesis using i Cons.IH[OF Some] by simp
  qed
qed

lemma get_extension_spec: "get_extension env filename = spec_extension (str_lower env) filename"
proof (cases "rfind filename CHR ''.''")
  case None
  moreover from None have "CHR ''.'' \<notin> set filename" by (simp add: rfind_None_iff)
  ultimately show ?thesis
    by (simp add: get_extension_def spec_extension_def)
next
  case (Some i)
  then have "CHR ''.'' \<in> set filename" using rfind_None_iff[of filename "CHR ''.''"] by auto
  then show ?thesis using Some rfind_Some_drop[OF Some]
    by (simp add: get_extension_def spec_extension_def)
qed



subsection \<open>The checks, one after the other\<close>

lemma intake_validate_no_file:
  "map_of parts ''file'' = None \<Longrightarrow>
   intake_validate env parts = Reject (rejection_response MissingFile)"
  by (simp add: intake_validate_def)

lemma intake_validate_no_filename:
  "map_of parts ''file'' = Some fp \<Longrightarrow> part_filename fp = None \<Longrightarrow>
   intake_validate env parts = Reject (rejection_response MissingFile)"
  by (simp add: intake_validate_def)

lemma intake_validate_missing_field:
  "map_of parts ''file'' = Some fp \<Longrightarrow> part_filename fp = Some filename \<Longrightarrow>
   find (\<lambda>field. map_of parts field = None) required_fields = Some field \<Longrightarrow>
   intake_validate env parts = Reject (rejection_response (MissingField field))"
  unfolding intake_validate_def required_fields_def by simp

lemma intake_validate_fields:
  assumes "map_of parts ''file'' = Some fp" "part_filename fp = Some filename"
    and "map_of parts ''student_id'' = Some sp" "map_of parts ''course_id'' = Some cp"
        "map_of parts ''section_id'' = Some tp"
    and "bytes_decode (part_value sp) = Some s" "bytes_decode (part_value cp) = Some c"
        "bytes_decode (part_value tp) = Some t"
  shows "intake_validate env parts =
     (if str_strip s = [] \<or> str_strip c = [] \<or> str_strip t = [] then
        Reject (rejection_response EmptyIdentifier)
      else if get_extension env filename \<notin> set ALLOWED_EXTENSIONS then
        Reject (rejection_response (DisallowedExtension (get_extension env filename)))
      else if int (length (part_value fp)) > MAX_FILE_SIZE env then
        Reject (rejection_response (FileTooLarge (length (part_value fp)) (MAX_FILE_SIZE env)))
      else
        Continue \<lparr>file_content = part_value fp, original_filename = filename,
                  student_id = str_strip s, course_id = str_strip c, section_id = str_strip t,
                  extension = get_extension env filename, file_size = length (part_value fp)\<rparr>)"
  unfolding intake_validate_def using assms by simp

lemma intake_validate_undecodable:
  assumes "map_of parts ''file'' = Some fp" "part_filename fp = Some filename"
    and "map_of parts ''student_id'' = Some sp" "map_of parts ''course_id'' = Some cp"
        "map_of parts ''section_id'' = Some tp"
    and "bytes_decode (part_value sp) = None \<or> bytes_decode (part_value cp) = None
         \<or> bytes_decode (part_value tp) = None"
  shows "intake_validate env parts = Raise UnicodeDecodeError"
  unfolding intake_validate_def using assms by (auto split: option.splits)

lemma spec_validate_fields:
  assumes "map_of parts ''file'' = Some fp" "part_filename fp = Some filename"
    and "map_of parts ''student_id'' = Some sp" "map_of parts ''course_id'' = Some cp"
        "map_of parts ''section_id'' = Some tp"
    and "bytes_decode (part_value sp) = Some s" "bytes_decode (part_value cp) = Some c"
        "bytes_decode (part_value tp) = Some t"
  shows "spec_validate lower allowed limit parts =
     (if str_strip s = [] \<or> str_strip c = [] \<or> str_strip t = [] then Some EmptyIdentifier
      else if spec_extension lower filename \<notin> set allowed then
        Some (DisallowedExtension (spec_extension lower filename))
      else if int (length (part_value fp)) > limit then
        Some (FileTooLarge (length (part_value fp)) limit)
      else None)"
  unfolding spec_validate_def spec_filename_def spec_file_size_def spec_identifier_def
    required_fields_def
  using assms by simp

lemma identifiers_decode_iff:
  assumes "map_of parts ''student_id'' = Some sp" "map_of parts ''course_id'' = Some cp"
        "map_of parts ''section_id'' = Some tp"
  shows "identifiers_decode parts \<longleftrightarrow>
     bytes_decode (part_value sp) \<noteq> None \<and> bytes_decode (part_value cp) \<noteq> None
     \<and> bytes_decode (part_value tp) \<noteq> None"
  unfolding identifiers_decode_def required_fields_def using assms by simp

lemma find_required_cases:
  "find (\<lambda>field. map_of parts field = None) required_fields = None \<longleftrightarrow>
     (\<exists>sp cp tp. map_of parts ''student_id'' = Some sp \<and> map_of parts ''course_id'' = Some cp
        \<and> map_of parts ''section_id'' = Some tp)"
  unfolding required_fields_def by auto

lemma rejection_status:
  "statusCode (rejection_response rej) = (case rej of FileTooLarge n limit \<Rightarrow> 413 | _ \<Rightarrow> 400)"
  by (cases rej) (simp_all add: intake_build_response_def)

subsection \<open>The order of the checks\<close>

text \<open>
  Claim C3 says that for every part mapping the validator returns the rejection of the first
  check that fails. The handler decodes the three identifiers between the second and the
  third check. For a mapping with all four parts, a \<^verbatim>\<open>student_id\<close> that is not UTF-8, an
  extension that is not allowed and a file over the ceiling, the validator returns no
  rejection: it raises \<^verbatim>\<open>UnicodeDecodeError\<close>.
\<close>

theorem intake_validate_order_counterexample:
  "intake_validate (example_intake_env 2 (Returns ()) (Returns ()) (Returns ()))
     (example_parts ''a.exe'' ''abc'' [CHR 0xFF]) = Raise UnicodeDecodeError"
  by code_simp

text \<open>
  Claim C3, amended. For every part mapping that fails the missing-file check or the
  missing-field check, or whose identifier parts are valid UTF-8, the validator agrees with
  the validator of the specification: it returns the rejection of the first failing check
  in the order missing file, missing field (\<^verbatim>\<open>student_id\<close>, \<^verbatim>\<open>course_id\<close>, \<^verbatim>\<open>section_id\<close>), empty
  identifier, disallowed extension, file too large, and when no check fails it returns a
  submission with an allowed extension, a size within the ceiling and identifiers that are
  not empty.
\<close>

theorem intake_validate_order:
  assumes "spec_filename parts = None
           \<or> find (\<lambda>field. map_of parts field = None) required_fields \<noteq> None
           \<or> identifiers_decode parts"
  shows "case spec_validate (str_lower env) ALLOWED_EXTENSIONS (MAX_FILE_SIZE env) parts of
           Some rej \<Rightarrow> intake_validate env parts = Reject (rejection_response rej)
         | None \<Rightarrow>
             (\<exists>v. intake_validate env parts = Continue v
                \<and> extension v \<in> set ALLOWED_EXTENSIONS
                \<and> int (file_size v) \<le> MAX_FILE_SIZE env
                \<and> student_id v \<noteq> [] \<and> course_id v \<noteq> [] \<and> section_id v \<noteq> [])"
proof (cases "spec_filename parts")
  case None
  then have "intake_validate env parts = Reject (rejection_response MissingFile)"
    using intake_validate_no_file[of parts env] intake_validate_no_filename[of parts _ env]
    by (auto simp: spec_filename_def split: option.splits)
  with None show ?thesis by (simp add: spec_validate_def)
next
  case (Some filename)
  then obtain fp where fp: "map_of parts ''file'' = Some fp" "part_filename fp = Some filename"
    by (auto simp: spec_filename_def split: option.splits)
  show ?thesis
  proof (cases "find (\<lambda>field. map_of parts field = None) required_fields")
    case (Some field)
    from intake_validate_missing_field[OF fp Some]
    show ?thesis using Some \<open>spec_filename parts = Some filename\<close>
      by (simp add: spec_validate_def)
  next
    case None
    then obtain sp cp tp where ps: "map_of parts ''student_id'' = Some sp"
        "map_of parts ''course_id'' = Some cp" "map_of parts ''section_id'' = Some tp"
      using find_required_cases[of parts] by auto
    from assms None \<open>spec_filename parts = Some filename\<close> have "identifiers_decode parts"
      by simp
    then obtain s c t where dec: "bytes_decode (part_value sp) = Some s"
        "bytes_decode (part_value cp) = Some c" "bytes_decode (part_value tp) = Some t"
      using identifiers_decode_iff[OF ps] by auto
    show ?thesis
      using spec_validate_fields[OF fp ps dec, of "str_lower env" ALLOWED_EXTENSIONS
          "MAX_FILE_SIZE env"]
        intake_validate_fields[OF fp ps dec, of env]
      by (simp add: get_extension_spec)
  qed
qed

theorem intake_validate_order_witness:
  "intake_validate (example_intake_env 2 (Returns ()) (Returns ()) (Returns ()))
     [(''student_id'', example_text_part [CHR 0xFF]), (''section_id'', example_text_part '' '')] =
     Reject (rejection_response MissingFile)
   \<and> intake_validate (example_intake_env 2 (Returns ()) (Returns ()) (Returns ()))
     [(''file'', example_file_part ''a.exe'' ''abc''), (''student_id'', example_text_part [CHR 0xFF]),
      (''section_id'', example_text_part '' '')] =
     Reject (rejection_response (MissingField ''course_id''))
   \<and> intake_validate (example_intake_env 2 (Returns ()) (Returns ()) (Returns ()))
     (example_parts ''a.exe'' ''abc'' '' '') = Reject (rejection_response EmptyIdentifier)
   \<and> intake_validate (example_intake_env 2 (Returns ()) (Returns ()) (Returns ()))
     (example_parts ''a.exe'' ''abc'' ''s1'') =
     Reject (rejection_response (DisallowedExtension ''.exe''))"
proof -
  let ?env = "example_intake_env 2 (Returns ()) (Returns ()) (Returns ())"
  let ?p1 = "[(''student_id'', example_text_part [CHR 0xFF]), (''section_id'', example_text_part '' '')]"
  let ?p2 = "[(''file'', example_file_part ''a.exe'' ''abc''),
              (''student_id'', example_text_part [CHR 0xFF]),
              (''section_id'', example_text_part '' '')]"
  let ?p3 = "example_parts ''a.exe'' ''abc'' '' ''"
  let ?p4 = "example_parts ''a.exe'' ''abc'' ''s1''"
  have e: "str_lower ?env = ascii_lower" "MAX_FILE_SIZE ?env = 2"
    by (simp_all add: example_intake_env_def)
  have h1: "spec_filename ?p1 = None" by code_simp
  have v1: "spec_validate ascii_lower ALLOWED_EXTENSIONS 2 ?p1 = Some MissingFile" by code_simp
  have h2: "find (\<lambda>field. map_of ?p2 field = None) required_fields \<noteq> None" by code_simp
  have v2: "spec_validate ascii_lower ALLOWED_EXTENSIONS 2 ?p2 = Some (MissingField ''course_id'')"
    by code_simp
  have h3: "identifiers_decode ?p3" by code_simp
  have v3: "spec_validate ascii_lower ALLOWED_EXTENSIONS 2 ?p3 = Some EmptyIdentifier"
    by code_simp
  have h4: "identifiers_decode ?p4" by code_simp
  have v4: "spec_validate ascii_lower ALLOWED_EXTENSIONS 2 ?p4 = Some (DisallowedExtension ''.exe'')"
    by code_simp
  from intake_validate_order[of ?p1 ?env] h1 v1 e
  have r1: "intake_validate ?env ?p1 = Reject (rejection_response MissingFile)" by simp
  from intake_validate_order[of ?p2 ?env] h2 v2 e
  have r2: "intake_validate ?env ?p2 = Reject (rejection_response (MissingField ''course_id''))"
    by simp
  from intake_validate_order[of ?p3 ?env] h3 v3 e
  have r3: "intake_validate ?env ?p3 = Reject (rejection_response EmptyIdentifier)" by simp
  from intake_validate_order[of ?p4 ?env] h4 v4 e
  have r4: "intake_validate ?env ?p4 = Reject (rejection_response (DisallowedExtension ''.exe''))"
    by simp
  from r1 r2 r3 r4 show ?thesis by simp
qed

subsection \<open>The example parts\<close>

lemma example_parts_lookup:
  "map_of (example_parts name content student) ''file'' = Some (example_file_part name content)"
  "map_of (example_parts name content student) ''student_id'' = Some (example_text_part student)"
  "map_of (example_parts name content student) ''course_id'' = Some (example_text_part ''CS101'')"
  "map_of (example_parts name content student) ''section_id'' = Some (example_text_part ''A'')"
  by (simp_all add: example_parts_def)

lemma example_file_part_filename: "part_filename (example_file_part name content) = Some name"
  by (simp add: example_file_part_def)

subsection \<open>The size ceiling\<close>

text \<open>
  Claim C8. A part mapping passes the checks before the size check when it has a file part
  with a file name and the three identifier parts, the identifiers decode and are not empty
  after trimming, and the extension is allowed. For such a mapping the validator rejects
  with the 413 response exactly when the file is longer than \<^verbatim>\<open>MAX_FILE_SIZE\<close>: a file of
  exactly \<^verbatim>\<open>MAX_FILE_SIZE\<close> bytes is accepted, a file of one byte more is rejected.
\<close>

theorem intake_validate_size_ceiling:
  assumes "map_of parts ''file'' = Some fp" "part_filename fp = Some filename"
    and "map_of parts ''student_id'' = Some sp" "map_of parts ''course_id'' = Some cp"
        "map_of parts ''section_id'' = Some tp"
    and "bytes_decode (part_value sp) = Some s" "bytes_decode (part_value cp) = Some c"
        "bytes_decode (part_value tp) = Some t"
    and "str_strip s \<noteq> []" "str_strip c \<noteq> []" "str_strip t \<noteq> []"
    and "get_extension env filename \<in> set ALLOWED_EXTENSIONS"
  shows "(int (length (part_value fp)) > MAX_FILE_SIZE env \<longrightarrow>
            intake_validate env parts =
              Reject (rejection_response
                        (FileTooLarge (length (part_value fp)) (MAX_FILE_SIZE env))))
       \<and> (int (length (part_value fp)) \<le> MAX_FILE_SIZE env \<longrightarrow>
            (\<exists>v. intake_validate env parts = Continue v \<and> file_content v = part_value fp
               \<and> file_size v = length (part_value fp)))
       \<and> (int (length (part_value fp)) = MAX_FILE_SIZE env \<longrightarrow>
            (\<exists>v. intake_validate env parts = Continue v))
       \<and> (int (length (part_value fp)) = MAX_FILE_SIZE env + 1 \<longrightarrow>
            (\<exists>r. intake_validate env parts = Reject r \<and> statusCode r = 413))
       \<and> statusCode (rejection_response
                        (FileTooLarge (length (part_value fp)) (MAX_FILE_SIZE env))) = 413"
proof -
  let ?n = "length (part_value fp)"
  let ?v = "\<lparr>file_content = part_value fp, original_filename = filename,
             student_id = str_strip s, course_id = str_strip c, section_id = str_strip t,
             extension = get_extension env filename, file_size = ?n\<rparr>"
  note v = intake_validate_fields[OF assms(1-8), of env]
  have big: "intake_validate env parts =
               Reject (rejection_response (FileTooLarge ?n (MAX_FILE_SIZE env)))"
    if "int ?n > MAX_FILE_SIZE env"
    unfolding v using that assms(9-12) by simp
  have small: "intake_validate env parts = Continue ?v" if "int ?n \<le> MAX_FILE_SIZE env"
    unfolding v using that assms(9-12) by simp
  have st: "statusCode (rejection_response (FileTooLarge ?n (MAX_FILE_SIZE env))) = 413"
    by (simp add: intake_build_response_def)
  have acc: "\<exists>v. intake_validate env parts = Continue v \<and> file_content v = part_value fp
               \<and> file_size v = ?n" if "int ?n \<le> MAX_FILE_SIZE env"
  proof (intro exI[of _ ?v] conjI)
    show "intake_validate env parts = Continue ?v" by (rule small[OF that])
  qed simp_all
  have c1: "int ?n > MAX_FILE_SIZE env \<longrightarrow>
            intake_validate env parts =
              Reject (rejection_response (FileTooLarge ?n (MAX_FILE_SIZE env)))"
    using big by blast
  have c2: "int ?n \<le> MAX_FILE_SIZE env \<longrightarrow>
            (\<exists>v. intake_validate env parts = Continue v \<and> file_content v = part_value fp
               \<and> file_size v = ?n)"
    using acc by blast
  have c3: "int ?n = MAX_FILE_SIZE env \<longrightarrow> (\<exists>v. intake_validate env parts = Continue v)"
  proof
    assume "int ?n = MAX_FILE_SIZE env"
    then have "int ?n \<le> MAX_FILE_SIZE env" by simp
    from small[OF this] show "\<exists>v. intake_validate env parts = Continue v" by (rule exI)
  qed
  have c4: "int ?n = MAX_FILE_SIZE env + 1 \<longrightarrow>
            (\<exists>r. intake_validate env parts = Reject r \<and> statusCode r = 413)"
  proof
    assume "int ?n = MAX_FILE_SIZE env + 1"
    then have "int ?n > MAX_FILE_SIZE env" by simp
    from big[OF this] st
    show "\<exists>r. intake_validate env parts = Reject r \<and> statusCode r = 413" by blast
  qed
  from c1 c2 c3 c4 st show ?thesis by (intro conjI)
qed

theorem intake_validate_size_ceiling_witness:
  "(\<exists>v. intake_validate (example_intake_env 3 (Returns ()) (Returns ()) (Returns ()))
          (example_parts ''a.pdf'' ''abc'' ''s1'') = Continue v)
   \<and> (\<exists>r. intake_validate (example_intake_env 3 (Returns ()) (Returns ()) (Returns ()))
          (example_parts ''a.pdf'' ''abcd'' ''s1'') = Reject r \<and> statusCode r = 413)"
proof -
  let ?env = "example_intake_env 3 (Returns ()) (Returns ()) (Returns ())"
  have e: "MAX_FILE_SIZE ?env = 3" by (simp add: example_intake_env_def)
  have x: "get_extension ?env ''a.pdf'' \<in> set ALLOWED_EXTENSIONS" by code_simp
  have d: "bytes_decode (part_value (example_text_part ''s1'')) = Some ''s1''"
    "bytes_decode (part_value (example_text_part ''CS101'')) = Some ''CS101''"
    "bytes_decode (part_value (example_text_part ''A'')) = Some ''A''"
    by code_simp+
  have n: "str_strip ''s1'' \<noteq> []" "str_strip ''CS101'' \<noteq> []" "str_strip ''A'' \<noteq> []"
    by code_simp+
  have l3: "int (length (part_value (example_file_part ''a.pdf'' ''abc''))) = MAX_FILE_SIZE ?env"
    by (simp add: e example_file_part_def)
  have l4: "int (length (part_value (example_file_part ''a.pdf'' ''abcd''))) = MAX_FILE_SIZE ?env + 1"
    by (simp add: e example_file_part_def)
  note k3 = example_parts_lookup[of "''a.pdf''" "''abc''" "''s1''"]
  note k4 = example_parts_lookup[of "''a.pdf''" "''abcd''" "''s1''"]
  note t3 = intake_validate_size_ceiling[OF k3(1) example_file_part_filename k3(2-4) d n x]
  note t4 = intake_validate_size_ceiling[OF k4(1) example_file_part_filename k4(2-4) d n x]
  from t3 l3 have a: "\<exists>v. intake_validate ?env (example_parts ''a.pdf'' ''abc'' ''s1'') = Continue v"
    by blast
  from t4 l4 have b: "\<exists>r. intake_validate ?env (example_parts ''a.pdf'' ''abcd'' ''s1'') = Reject r
             \<and> statusCode r = 413"
    by blast
  from a b show ?thesis by (rule conjI)
qed

subsection \<open>The extension and the allow-list\<close>



section \<open>The intake handler\<close>

subsection \<open>The sections of the handler\<close>

lemma intake_handler_preflight:
  assumes "httpMethod ev = Some ''OPTIONS''"
  shows "intake_lambda_handler env ev =
           (intake_build_response 200 [(''message'', JStr ''OK'')], [])"
  using assms by (simp add: intake_lambda_handler_def)

lemma intake_handler_stages:
  assumes "httpMethod ev \<noteq> Some ''OPTIONS''"
  shows "intake_lambda_handler env ev =
     (case event_claims ev of
        Inl e \<Rightarrow> intake_unhandled
      | Inr None \<Rightarrow> intake_unhandled
      | Inr (Some cl) \<Rightarrow>
          (case intake_decode env ev of
             Reject r \<Rightarrow> (r, [])
           | Raise e \<Rightarrow> intake_unhandled
           | Continue parts \<Rightarrow>
               (case intake_validate env parts of
                  Reject r \<Rightarrow> (r, [])
                | Raise e \<Rightarrow> intake_unhandled
                | Continue v \<Rightarrow>
                    intake_store env (dict_get cl ''sub'' ''anonymous'')
                      (dict_get cl ''email'' ''unknown'') v)))"
  using assms by (cases "httpMethod ev") (simp_all add: intake_lambda_handler_def)

lemma intake_unhandled_facts:
  "statusCode (fst intake_unhandled) = 500"
  "snd intake_unhandled = [LogException ''Unhandled exception in intake-handler'']"
  by (simp_all add: intake_unhandled_def intake_build_response_def)

lemma intake_decode_reject_status:
  assumes "intake_decode env ev = Reject r"
  shows "statusCode r = 400"
proof -
  let ?body = "case body ev of None \<Rightarrow> [] | Some b \<Rightarrow> b"
  let ?hs = "case headers ev of None \<Rightarrow> [] | Some h \<Rightarrow> h"
  let ?ct = "if dict_get ?hs ''Content-Type'' [] \<noteq> [] then dict_get ?hs ''Content-Type'' []
             else dict_get ?hs ''content-type'' []"
  show ?thesis
  proof (cases "?body = []")
    case True
    with assms show ?thesis by (auto simp: intake_decode_def Let_def intake_build_response_def)
  next
    case False
    show ?thesis
    proof (cases "if isBase64Encoded ev then b64decode env ?body else Some ?body")
      case None
      with assms False show ?thesis by (simp add: intake_decode_def Let_def)
    next
      case (Some body_bytes)
      show ?thesis
      proof (cases "contains ?ct ''multipart/form-data''")
        case False
        with assms \<open>?body \<noteq> []\<close> Some show ?thesis
          by (auto simp: intake_decode_def Let_def intake_build_response_def)
      next
        case True
        show ?thesis
        proof (cases "parse_multipart ?ct body_bytes")
          case (Inr parts)
          with assms \<open>?body \<noteq> []\<close> Some True show ?thesis
            by (simp add: intake_decode_def Let_def)
        next
          case (Inl e)
          with assms \<open>?body \<noteq> []\<close> Some True show ?thesis
            by (cases e) (auto simp: intake_decode_def Let_def intake_build_response_def)
        qed
      qed
    qed
  qed
qed

lemma intake_validate_cases:
  "(\<exists>rej. intake_validate env parts = Reject (rejection_response rej))
   \<or> intake_validate env parts = Raise UnicodeDecodeError
   \<or> (\<exists>v. intake_validate env parts = Continue v)"
proof (cases "map_of parts ''file''")
  case None
  from intake_validate_no_file[OF this] show ?thesis by blast
next
  case (Some fp)
  show ?thesis
  proof (cases "part_filename fp")
    case None
    from intake_validate_no_filename[OF Some this] show ?thesis by blast
  next
    case (Some filename)
    note fp = \<open>map_of parts ''file'' = Some fp\<close> Some
    show ?thesis
    proof (cases "find (\<lambda>field. map_of parts field = None) required_fields")
      case (Some field)
      from intake_validate_missing_field[OF fp this] show ?thesis by blast
    next
      case None
      then obtain sp cp tp where ps: "map_of parts ''student_id'' = Some sp"
          "map_of parts ''course_id'' = Some cp" "map_of parts ''section_id'' = Some tp"
        using find_required_cases[of parts] by auto
      show ?thesis
      proof (cases "bytes_decode (part_value sp) = None \<or> bytes_decode (part_value cp) = None
                    \<or> bytes_decode (part_value tp) = None")
        case True
        from intake_validate_undecodable[OF fp ps this] show ?thesis by blast
      next
        case False
        then obtain s c t where dec: "bytes_decode (part_value sp) = Some s"
            "bytes_decode (part_value cp) = Some c" "bytes_decode (part_value tp) = Some t"
          by auto
        note v = intake_validate_fields[OF fp ps dec, of env]
        show ?thesis
        proof (cases "str_strip s = [] \<or> str_strip c = [] \<or> str_strip t = []")
          case True
          with v have "intake_validate env parts = Reject (rejection_response EmptyIdentifier)"
            by simp
          then show ?thesis by blast
        next
          case ne: False
          show ?thesis
          proof (cases "get_extension env filename \<in> set ALLOWED_EXTENSIONS")
            case False
            with v ne have "intake_validate env parts =
                Reject (rejection_response (DisallowedExtension (get_extension env filename)))"
              by simp
            then show ?thesis by blast
          next
            case True
            show ?thesis
            proof (cases "int (length (part_value fp)) > MAX_FILE_SIZE env")
              case True
              with v ne \<open>get_extension env filename \<in> set ALLOWED_EXTENSIONS\<close>
              have "intake_validate env parts =
                Reject (rejection_response
                          (FileTooLarge (length (part_value fp)) (MAX_FILE_SIZE env)))"
                by simp
              then show ?thesis by blast
            next
              case False
              with v ne \<open>get_extension env filename \<in> set ALLOWED_EXTENSIONS\<close>
              have "\<exists>w. intake_validate env parts = Continue w" by simp
              then show ?thesis by blast
            qed
          qed
        qed
      qed
    qed
  qed
qed

lemma rejection_status_cases:
  "statusCode (rejection_response rej) = 400 \<or> statusCode (rejection_response rej) = 413"
  by (cases rej) (simp_all add: intake_build_response_def)

lemma intake_validate_reject_status:
  assumes "intake_validate env parts = Reject r"
  shows "statusCode r = 400 \<or> statusCode r = 413"
proof -
  from intake_validate_cases[of env parts] assms
  obtain rej where "r = rejection_response rej" by auto
  then show ?thesis using rejection_status_cases[of rej] by simp
qed

subsection \<open>The two writes\<close>

lemma intake_store_trace:
  "\<exists>md rest. snd (intake_store env u m v) =
       PutObject (RAW_BUCKET env)
         (''submissions/'' @ student_id v @ ''/'' @ uuid4 env @ ''/'' @ original_filename v)
         (file_content v) ''application/octet-stream'' md # rest
     \<and> \<not> list_ex is_put_object rest"
  by (cases "put_object env
               (''submissions/'' @ student_id v @ ''/'' @ uuid4 env @ ''/'' @ original_filename v)
               (file_content v)";
      cases "put_item env
               [(''submission_id'', JStr (uuid4 env)),
                (''student_id'', JStr (student_id v)),
                (''course_id'', JStr (course_id v)),
                (''section_id'', JStr (section_id v)),
                (''file_path'', JStr (''s3://'' @ RAW_BUCKET env @ ''/'' @
                   (''submissions/'' @ student_id v @ ''/'' @ uuid4 env @ ''/'' @ original_filename v))),
                (''file_name'', JStr (original_filename v)),
                (''file_size'', JInt (int (file_size v))),
                (''file_type'', JStr (extension v)),
                (''sha256_hash'', JStr (sha256 env (file_content v))),
                (''upload_timestamp'', JStr (utcnow_isoformat env)),
                (''status'', JStr ''uploaded''),
                (''user_id'', JStr u),
                (''email'', JStr m)]")
     (simp_all add: intake_store_def Let_def split: outcome.splits)

lemma intake_store_blob_failure:
  assumes "put_object env
             (''submissions/'' @ student_id v @ ''/'' @ uuid4 env @ ''/'' @ original_filename v)
             (file_content v) = Raises e"
  shows "intake_store env u m v =
           (intake_build_response 500 [(''error'', JStr ''Failed to upload file to storage'')],
            [PutObject (RAW_BUCKET env)
               (''submissions/'' @ student_id v @ ''/'' @ uuid4 env @ ''/'' @ original_filename v)
               (file_content v) ''application/octet-stream''
               [(''submission_id'', uuid4 env), (''student_id'', student_id v),
                (''sha256'', sha256 env (file_content v))],
             LogException ''S3 upload failed''])"
  using assms by (simp add: intake_store_def Let_def)

lemma put_object_first:
  assumes "tr = c # rest" "is_put_object c"
  shows "\<forall>i<length tr. is_put_item (tr ! i) \<longrightarrow> (\<exists>j<i. is_put_object (tr ! j))"
proof (intro allI impI)
  fix i
  assume "i < length tr" "is_put_item (tr ! i)"
  from assms(2) have "\<not> is_put_item c" by (cases c) simp_all
  with \<open>is_put_item (tr ! i)\<close> assms(1) have "i \<noteq> 0" by (cases i) auto
  then have "0 < i" by simp
  moreover have "is_put_object (tr ! 0)" using assms by simp
  ultimately show "\<exists>j<i. is_put_object (tr ! j)" by blast
qed

lemma intake_store_order:
  "\<forall>i<length (snd (intake_store env u m v)).
     is_put_item (snd (intake_store env u m v) ! i) \<longrightarrow>
     (\<exists>j<i. is_put_object (snd (intake_store env u m v) ! j))"
proof -
  from intake_store_trace[of env u m v] obtain c rest
    where "snd (intake_store env u m v) = c # rest" "is_put_object c"
    by auto
  then show ?thesis by (rule put_object_first)
qed

lemma intake_store_blob_failure_trace:
  assumes "PutObject bucket k b ct md \<in> set (snd (intake_store env u m v))"
    and "put_object env k b = Raises e"
  shows "statusCode (fst (intake_store env u m v)) = 500
         \<and> \<not> list_ex is_put_item (snd (intake_store env u m v))"
proof -
  from intake_store_trace[of env u m v] obtain md' rest
    where tr: "snd (intake_store env u m v) =
       PutObject (RAW_BUCKET env)
         (''submissions/'' @ student_id v @ ''/'' @ uuid4 env @ ''/'' @ original_filename v)
         (file_content v) ''application/octet-stream'' md' # rest"
      and rest: "\<not> list_ex is_put_object rest"
    by blast
  from rest have "PutObject bucket k b ct md \<notin> set rest"
    by (auto simp: list_ex_iff)
  with assms(1) tr have
    "k = ''submissions/'' @ student_id v @ ''/'' @ uuid4 env @ ''/'' @ original_filename v"
    "b = file_content v"
    by auto
  with assms(2) intake_store_blob_failure[of env v e u m]
  show ?thesis by (simp add: intake_build_response_def)
qed

subsection \<open>Identifiers that are not UTF-8\<close>

text \<open>
  Claim C10 says that every request with an identifier part that is not valid UTF-8 is
  answered by the generic 500 response and not by a 400 rejection. The identifiers are
  decoded after the missing-file and missing-field checks: the base64-encoded request below
  has the \<^verbatim>\<open>student_id\<close> byte \<^verbatim>\<open>0xFF\<close> and no file part, and is answered 400.
\<close>

theorem intake_invalid_utf8_counterexample:
  "intake_decode example_b64_env (example_b64_event example_b64_no_file) =
     Continue [(''student_id'', example_text_part [CHR 0xFF]),
               (''course_id'', example_text_part ''CS101''),
               (''section_id'', example_text_part ''A'')]
   \<and> bytes_decode [CHR 0xFF] = None
   \<and> intake_lambda_handler example_b64_env (example_b64_event example_b64_no_file) =
     (intake_build_response 400 [(''error'', JStr ''Missing required field: file'')], [])"
  by code_simp

text \<open>
  Claim C10, amended. For every upload request (not the preflight) whose body decodes to
  parts with a file part that has a file name and with all three identifier parts, and in
  which the bytes of the \<^verbatim>\<open>student_id\<close>, \<^verbatim>\<open>course_id\<close> or \<^verbatim>\<open>section_id\<close> part are not valid UTF-8,
  the handler returns the generic response 500 \<^verbatim>\<open>Internal server error\<close> of the top-level
  exception handler, and the only call is the one of \<^verbatim>\<open>logger.exception\<close>: nothing is written
  to the blob store or to the metadata store.
\<close>

theorem intake_invalid_utf8:
  assumes "httpMethod ev \<noteq> Some ''OPTIONS''"
    and "intake_decode env ev = Continue parts"
    and "map_of parts ''file'' = Some fp" "part_filename fp = Some filename"
    and "map_of parts ''student_id'' = Some sp" "map_of parts ''course_id'' = Some cp"
        "map_of parts ''section_id'' = Some tp"
    and "bytes_decode (part_value sp) = None \<or> bytes_decode (part_value cp) = None
         \<or> bytes_decode (part_value tp) = None"
  shows "intake_lambda_handler env ev =
           (intake_build_response 500 [(''error'', JStr ''Internal server error'')],
            [LogException ''Unhandled exception in intake-handler''])
       \<and> statusCode (fst (intake_lambda_handler env ev)) = 500
       \<and> \<not> list_ex is_put_object (snd (intake_lambda_handler env ev))
       \<and> \<not> list_ex is_put_item (snd (intake_lambda_handler env ev))"
proof -
  have v: "intake_validate env parts = Raise UnicodeDecodeError"
    by (rule intake_validate_undecodable[OF assms(3-8)])
  have "intake_lambda_handler env ev = intake_unhandled"
    unfolding intake_handler_stages[OF assms(1)] using assms(2) v
    by (simp split: sum.splits option.splits)
  then show ?thesis
    by (simp add: intake_unhandled_def intake_build_response_def)
qed

theorem intake_invalid_utf8_witness:
  "intake_lambda_handler example_b64_env (example_b64_event example_b64_bad_student) =
     (intake_build_response 500 [(''error'', JStr ''Internal server error'')],
      [LogException ''Unhandled exception in intake-handler''])"
proof -
  let ?ev = "example_b64_event example_b64_bad_student"
  have m: "httpMethod ?ev \<noteq> Some ''OPTIONS''"
    by (simp add: example_b64_event_def example_upload_event_def)
  have d: "intake_decode example_b64_env ?ev =
             Continue (example_parts ''a.pdf'' ''abc'' [CHR 0xFF])"
    by code_simp
  have u: "bytes_decode (part_value (example_text_part [CHR 0xFF])) = None
           \<or> bytes_decode (part_value (example_text_part ''CS101'')) = None
           \<or> bytes_decode (part_value (example_text_part ''A'')) = None"
    by code_simp
  note k = example_parts_lookup[of "''a.pdf''" "''abc''" "[CHR 0xFF]"]
  from intake_invalid_utf8[OF m d k(1) example_file_part_filename k(2-4) u]
  show ?thesis by blast
qed

subsection \<open>Failures and the order of the writes\<close>

text \<open>
  Claim C2 says that whenever decoding or validation fails the answer is 400 or 413. In the
  base64-encoded request below every part is present and the \<^verbatim>\<open>course_id\<close> bytes
  \<^verbatim>\<open>0xC3 0x28\<close> are not UTF-8: the section of the handler that validates the fields raises, and
  the answer is the generic 500 response. No store is called.
\<close>

theorem intake_failure_counterexample:
  "intake_lambda_handler example_b64_env (example_b64_event example_b64_bad_course) =
     (intake_build_response 500 [(''error'', JStr ''Internal server error'')],
      [LogException ''Unhandled exception in intake-handler''])
   \<and> statusCode (intake_build_response 500 [(''error'', JStr ''Internal server error'')]) \<noteq> 400
   \<and> statusCode (intake_build_response 500 [(''error'', JStr ''Internal server error'')]) \<noteq> 413"
  by code_simp

text \<open>
  Claim C2, amended. For every upload request (not the preflight, with claims that can be
  read): when decoding rejects the request the handler returns that rejection, a 400
  response, and when validation rejects it the handler returns that rejection, a 400 or
  413 response, in both cases without any call. For every request: unless decoding and
  validation both succeed, no call to the blob store or to the metadata store is made;
  every write to the metadata store comes after a write to the blob store; and when the
  write to the blob store fails the answer is a 500 response and no write to the metadata
  store is attempted.
\<close>

theorem intake_failure_no_side_effects:
  "(httpMethod ev \<noteq> Some ''OPTIONS'' \<and> event_claims ev = Inr (Some cl) \<longrightarrow>
      (\<forall>r. intake_decode env ev = Reject r \<longrightarrow>
         statusCode r = 400 \<and> intake_lambda_handler env ev = (r, []))
    \<and> (\<forall>parts r. intake_decode env ev = Continue parts \<and> intake_validate env parts = Reject r \<longrightarrow>
         (statusCode r = 400 \<or> statusCode r = 413) \<and> intake_lambda_handler env ev = (r, [])))
   \<and> ((\<forall>parts v. intake_decode env ev = Continue parts \<longrightarrow>
          intake_validate env parts \<noteq> Continue v) \<longrightarrow>
        \<not> list_ex is_put_object (snd (intake_lambda_handler env ev))
        \<and> \<not> list_ex is_put_item (snd (intake_lambda_handler env ev)))
   \<and> (\<forall>i<length (snd (intake_lambda_handler env ev)).
         is_put_item (snd (intake_lambda_handler env ev) ! i) \<longrightarrow>
         (\<exists>j<i. is_put_object (snd (intake_lambda_handler env ev) ! j)))
   \<and> (\<forall>bucket k b ct md e.
         PutObject bucket k b ct md \<in> set (snd (intake_lambda_handler env ev))
         \<and> put_object env k b = Raises e \<longrightarrow>
         statusCode (fst (intake_lambda_handler env ev)) = 500
         \<and> \<not> list_ex is_put_item (snd (intake_lambda_handler env ev)))"
proof -
  let ?res = "intake_lambda_handler env ev"
  have a: "statusCode r = 400 \<and> ?res = (r, [])"
    if "httpMethod ev \<noteq> Some ''OPTIONS''" "event_claims ev = Inr (Some cl)"
      "intake_decode env ev = Reject r" for r
    using intake_decode_reject_status[OF that(3)] that
    by (simp add: intake_handler_stages)
  have b: "(statusCode r = 400 \<or> statusCode r = 413) \<and> ?res = (r, [])"
    if "httpMethod ev \<noteq> Some ''OPTIONS''" "event_claims ev = Inr (Some cl)"
      "intake_decode env ev = Continue parts" "intake_validate env parts = Reject r" for parts r
    using intake_validate_reject_status[OF that(4)] that
    by (simp add: intake_handler_stages)
  have quiet: "snd ?res = [] \<or> snd ?res = [LogException ''Unhandled exception in intake-handler'']
      \<or> (\<exists>parts v u m. intake_decode env ev = Continue parts
            \<and> intake_validate env parts = Continue v \<and> ?res = intake_store env u m v)"
  proof (cases "httpMethod ev = Some ''OPTIONS''")
    case True
    then show ?thesis by (simp add: intake_handler_preflight)
  next
    case False
    note st = intake_handler_stages[OF False, of env]
    show ?thesis
    proof (cases "event_claims ev")
      case (Inl e)
      with st show ?thesis by (simp add: intake_unhandled_facts)
    next
      case (Inr c)
      show ?thesis
      proof (cases c)
        case None
        with st Inr show ?thesis by (simp add: intake_unhandled_facts)
      next
        case (Some cl')
        show ?thesis
        proof (cases "intake_decode env ev")
          case (Reject r)
          with st Inr Some show ?thesis by simp
        next
          case (Raise e)
          with st Inr Some show ?thesis by (simp add: intake_unhandled_facts)
        next
          case (Continue parts)
          show ?thesis
          proof (cases "intake_validate env parts")
            case (Reject r)
            with st Inr Some Continue show ?thesis by simp
          next
            case (Raise e)
            with st Inr Some Continue show ?thesis by (simp add: intake_unhandled_facts)
          next
            case v: (Continue v)
            with st Inr Some Continue have "?res = intake_store env
                (dict_get cl' ''sub'' ''anonymous'') (dict_get cl' ''email'' ''unknown'') v"
              by simp
            with Continue v show ?thesis by blast
          qed
        qed
      qed
    qed
  qed
  have c: "\<not> list_ex is_put_object (snd ?res) \<and> \<not> list_ex is_put_item (snd ?res)"
    if "\<forall>parts v. intake_decode env ev = Continue parts \<longrightarrow>
          intake_validate env parts \<noteq> Continue v"
    using quiet that by auto
  have d: "\<forall>i<length (snd ?res). is_put_item (snd ?res ! i) \<longrightarrow>
         (\<exists>j<i. is_put_object (snd ?res ! j))"
    using quiet intake_store_order by (elim disjE exE conjE) simp_all
  have e: "statusCode (fst ?res) = 500 \<and> \<not> list_ex is_put_item (snd ?res)"
    if "PutObject bucket k b ct md \<in> set (snd ?res)" "put_object env k b = Raises x"
    for bucket k b ct md x
    using quiet
  proof (elim disjE exE conjE)
    fix parts v u m
    assume "?res = intake_store env u m v"
    with that intake_store_blob_failure_trace[of bucket k b ct md env u m v x]
    show ?thesis by simp
  qed (use that in simp_all)
  from a b c d e show ?thesis by blast
qed

theorem intake_failure_no_side_effects_witness:
  "intake_lambda_handler (example_intake_env 100 (Returns ()) (Returns ()) (Returns ()))
     (example_upload_event
        (example_file ''malware.exe'' ''abc'' @ example_field ''student_id'' ''s1''
         @ example_field ''course_id'' ''CS101'' @ example_field ''section_id'' ''A''
         @ example_closing)) =
     (rejection_response (DisallowedExtension ''.exe''), [])
   \<and> statusCode (fst (intake_lambda_handler
        (example_intake_env 100 (Raises ClientError) (Returns ()) (Returns ()))
        (example_upload_event
           (example_file ''a.pdf'' ''abc'' @ example_field ''student_id'' ''s1''
            @ example_field ''course_id'' ''CS101'' @ example_field ''section_id'' ''A''
            @ example_closing)))) = 500
   \<and> \<not> list_ex is_put_item (snd (intake_lambda_handler
        (example_intake_env 100 (Raises ClientError) (Returns ()) (Returns ()))
        (example_upload_event
           (example_file ''a.pdf'' ''abc'' @ example_field ''student_id'' ''s1''
            @ example_field ''course_id'' ''CS101'' @ example_field ''section_id'' ''A''
            @ example_closing))))"
proof -
  let ?env1 = "example_intake_env 100 (Returns ()) (Returns ()) (Returns ())"
  let ?ev1 = "example_upload_event
        (example_file ''malware.exe'' ''abc'' @ example_field ''student_id'' ''s1''
         @ example_field ''course_id'' ''CS101'' @ example_field ''section_id'' ''A''
         @ example_closing)"
  let ?env2 = "example_intake_env 100 (Raises ClientError) (Returns ()) (Returns ())"
  let ?ev2 = "example_upload_event
           (example_file ''a.pdf'' ''abc'' @ example_field ''student_id'' ''s1''
            @ example_field ''course_id'' ''CS101'' @ example_field ''section_id'' ''A''
            @ example_closing)"
  let ?cl = "[(''sub'', ''user-123''), (''email'', ''student@university.edu'')]"
  have m1: "httpMethod ?ev1 \<noteq> Some ''OPTIONS''" by (simp add: example_upload_event_def)
  have c1: "event_claims ?ev1 = Inr (Some ?cl)"
    by (simp add: example_upload_event_def event_claims_def)
  have d1: "intake_decode ?env1 ?ev1 = Continue (example_parts ''malware.exe'' ''abc'' ''s1'')"
    by code_simp
  have v1: "intake_validate ?env1 (example_parts ''malware.exe'' ''abc'' ''s1'') =
              Reject (rejection_response (DisallowedExtension ''.exe''))"
    by code_simp
  from intake_failure_no_side_effects[of ?ev1 ?cl ?env1] m1 c1 d1 v1
  have r1: "intake_lambda_handler ?env1 ?ev1 =
              (rejection_response (DisallowedExtension ''.exe''), [])"
    by blast
  have p2: "PutObject ''test-raw-bucket'' ''submissions/s1/uuid-1/a.pdf'' ''abc''
              ''application/octet-stream''
              [(''submission_id'', ''uuid-1''), (''student_id'', ''s1''), (''sha256'', ''digest'')]
            \<in> set (snd (intake_lambda_handler ?env2 ?ev2))"
    by code_simp
  have f2: "put_object ?env2 ''submissions/s1/uuid-1/a.pdf'' ''abc'' = Raises ClientError"
    by (simp add: example_intake_env_def)
  from intake_failure_no_side_effects[of ?ev2 ?cl ?env2] p2 f2
  have r2: "statusCode (fst (intake_lambda_handler ?env2 ?ev2)) = 500
            \<and> \<not> list_ex is_put_item (snd (intake_lambda_handler ?env2 ?ev2))"
    by blast
  from r1 r2 show ?thesis by simp
qed

section \<open>The multipart decoder\<close>

subsection \<open>The boundary\<close>





subsection \<open>The segments\<close>









subsection \<open>The decoder\<close>



end
